theory Spec2Isabelle
  imports Main "HOL-Library.AList" "HOL-Library.Char_ord" "HOL-Library.List_Lexorder"
begin

section \<open>Text helpers\<close>

text \<open>
  JavaScript strings are modelled as \<^typ>\<open>string\<close>, one \<^typ>\<open>char\<close> for each code unit
  below 256 (Latin-1; the documents are ASCII text with the occasional no-break
  space). In that range the whitespace of the regular expression class \<^verbatim>\<open>\s\<close> and of
  \<^verbatim>\<open>trim()\<close> is tab, line feed, vertical tab, form feed, carriage return, space and
  the no-break space U+00A0; \<^verbatim>\<open>toLowerCase\<close> maps \<^verbatim>\<open>A-Z\<close> and the accented capitals
  U+00C0 to U+00DE (without the multiplication sign U+00D7) to the letter 32 places
  further, and leaves every other character alone.
\<close>

definition isWhitespace :: "char \<Rightarrow> bool" where
  "isWhitespace c =
     (c \<in> set [CHR '' '', CHR 0x09, CHR 0x0A, CHR 0x0B, CHR 0x0C, CHR 0x0D, CHR 0xA0])"

text \<open>\<^verbatim>\<open>text.replace(/\s+/g, ' ')\<close>: every maximal run of whitespace becomes one space.
  The flag says whether the preceding character belonged to a run.\<close>

fun replaceWhitespaceRuns :: "bool \<Rightarrow> string \<Rightarrow> string" where
  "replaceWhitespaceRuns inRun [] = []"
| "replaceWhitespaceRuns inRun (c # cs) =
     (if isWhitespace c
      then (if inRun then replaceWhitespaceRuns True cs
            else CHR '' '' # replaceWhitespaceRuns True cs)
      else c # replaceWhitespaceRuns False cs)"

definition replaceNewlines :: "string \<Rightarrow> string" where
  "replaceNewlines s = map (\<lambda>c. if c = CHR 0x0A then CHR '' '' else c) s"

definition trim :: "string \<Rightarrow> string" where
  "trim s = rev (dropWhile isWhitespace (rev (dropWhile isWhitespace s)))"

definition cleanText :: "string \<Rightarrow> string" where
  "cleanText text =
     (if text = [] then []
      else trim (replaceNewlines (replaceWhitespaceRuns False text)))"

definition upperCaseChars :: string where
  "upperCaseChars =
     ''ABCDEFGHIJKLMNOPQRSTUVWXYZ'' @
     [CHR 0xC0, CHR 0xC1, CHR 0xC2, CHR 0xC3, CHR 0xC4, CHR 0xC5, CHR 0xC6,
      CHR 0xC7, CHR 0xC8, CHR 0xC9, CHR 0xCA, CHR 0xCB, CHR 0xCC, CHR 0xCD,
      CHR 0xCE, CHR 0xCF, CHR 0xD0, CHR 0xD1, CHR 0xD2, CHR 0xD3, CHR 0xD4,
      CHR 0xD5, CHR 0xD6, CHR 0xD8, CHR 0xD9, CHR 0xDA, CHR 0xDB, CHR 0xDC,
      CHR 0xDD, CHR 0xDE]"

definition lowerCaseChars :: string where
  "lowerCaseChars =
     ''abcdefghijklmnopqrstuvwxyz'' @
     [CHR 0xE0, CHR 0xE1, CHR 0xE2, CHR 0xE3, CHR 0xE4, CHR 0xE5, CHR 0xE6,
      CHR 0xE7, CHR 0xE8, CHR 0xE9, CHR 0xEA, CHR 0xEB, CHR 0xEC, CHR 0xED,
      CHR 0xEE, CHR 0xEF, CHR 0xF0, CHR 0xF1, CHR 0xF2, CHR 0xF3, CHR 0xF4,
      CHR 0xF5, CHR 0xF6, CHR 0xF8, CHR 0xF9, CHR 0xFA, CHR 0xFB, CHR 0xFC,
      CHR 0xFD, CHR 0xFE]"

definition toLowerChar :: "char \<Rightarrow> char" where
  "toLowerChar c =
     (case map_of (zip upperCaseChars lowerCaseChars) c of
        Some l \<Rightarrow> l
      | None \<Rightarrow> c)"

definition toLowerCase :: "string \<Rightarrow> string" where
  "toLowerCase s = map toLowerChar s"

fun startsWith :: "string \<Rightarrow> string \<Rightarrow> bool" where
  "startsWith s [] = True"
| "startsWith [] (d # ds) = False"
| "startsWith (c # cs) (d # ds) = (c = d \<and> startsWith cs ds)"

text \<open>\<^verbatim>\<open>String.prototype.includes\<close>: the second string occurs as a contiguous piece.\<close>

fun includes_str :: "string \<Rightarrow> string \<Rightarrow> bool" where
  "includes_str [] sub = (sub = [])"
| "includes_str (c # cs) sub = (startsWith (c # cs) sub \<or> includes_str cs sub)"

text \<open>\<^verbatim>\<open>s.split(c)\<close> for a single separator character: always at least one piece.\<close>

fun splitOn :: "char \<Rightarrow> string \<Rightarrow> string \<Rightarrow> string list" where
  "splitOn sep cur [] = [rev cur]"
| "splitOn sep cur (c # cs) =
     (if c = sep then rev cur # splitOn sep [] cs else splitOn sep (c # cur) cs)"

text \<open>\<^verbatim>\<open>value.split(/[,\s]+/)\<close>: the pieces between maximal runs of commas and
  whitespace. The flag says whether the preceding character belonged to such a run.\<close>

definition isNameFromSeparator :: "char \<Rightarrow> bool" where
  "isNameFromSeparator c = (c = CHR '','' \<or> isWhitespace c)"

fun splitOnRuns :: "(char \<Rightarrow> bool) \<Rightarrow> bool \<Rightarrow> string \<Rightarrow> string \<Rightarrow> string list" where
  "splitOnRuns sep inRun cur [] = [rev cur]"
| "splitOnRuns sep inRun cur (c # cs) =
     (if sep c
      then (if inRun then splitOnRuns sep True cur cs
            else rev cur # splitOnRuns sep True [] cs)
      else splitOnRuns sep False (c # cur) cs)"

text \<open>\<^verbatim>\<open>.filter(Boolean)\<close> on an array of strings drops the empty ones.\<close>

definition filterBoolean :: "string list \<Rightarrow> string list" where
  "filterBoolean xs = filter (\<lambda>s. s \<noteq> []) xs"


section \<open>The structured inheritance table and the resolver\<close>

text \<open>
  An entry of a property list of \<^verbatim>\<open>roleInfo.js\<close>. Only \<^verbatim>\<open>name\<close> is read by the
  resolver; the flags travel with the entry.
\<close>

record property =
  name :: string
  required :: bool
  deprecated :: bool
  disallowed :: bool

text \<open>
  One value of the \<^verbatim>\<open>roleInfo\<close> object. A field that is absent (\<^verbatim>\<open>undefined\<close>, falsy)
  is \<^const>\<open>None\<close>; an array, also the empty one, is truthy and is \<^const>\<open>Some\<close>.
\<close>

record roleInfoEntry =
  parentRoles :: "string list option"
  localprops :: "property list option"
  allprops :: "property list option"

text \<open>
  The \<^verbatim>\<open>roleInfo\<close> object, in the order of \<^verbatim>\<open>Object.entries\<close>; \<^verbatim>\<open>roleInfo[roleName]\<close>
  is \<^const>\<open>map_of\<close>.
\<close>

type_synonym roleInfo = "(string \<times> roleInfoEntry) list"

text \<open>The inner loop of \<^verbatim>\<open>buildAllProps\<close>: a parent's entry is pushed unless
  \<^verbatim>\<open>props.find(p => p.name === parentProp.name)\<close> finds one of that name.\<close>

fun addParentProps :: "property list \<Rightarrow> property list \<Rightarrow> property list" where
  "addParentProps props [] = props"
| "addParentProps props (parentProp # rest) =
     addParentProps
       (if List.find (\<lambda>p. property.name p = property.name parentProp) props = None
        then props @ [parentProp] else props)
       rest"

text \<open>
  \<^verbatim>\<open>buildAllProps(roleName, roleInfo, visited)\<close>. The \<^verbatim>\<open>visited\<close> set is one mutable
  object shared by all recursive calls, so the model passes it in and returns it
  updated. \<open>inheritFromParents\<close> is the loop over \<^verbatim>\<open>role.parentRoles\<close>.
\<close>

function buildAllProps ::
    "string \<Rightarrow> roleInfo \<Rightarrow> string set \<Rightarrow> property list \<times> string set"
  and inheritFromParents ::
    "string list \<Rightarrow> roleInfo \<Rightarrow> property list \<Rightarrow> string set \<Rightarrow> property list \<times> string set"
where
  "buildAllProps roleName roleInfo visited =
     (if roleName \<in> visited then ([], visited)
      else let visited1 = insert roleName visited in
        (case map_of roleInfo roleName of
           None \<Rightarrow> ([], visited1)
         | Some role \<Rightarrow>
             (case allprops role of
                Some ap \<Rightarrow> (ap, visited1)
              | None \<Rightarrow>
                  (let props = (case localprops role of Some lp \<Rightarrow> lp | None \<Rightarrow> []) in
                   (case roleInfoEntry.parentRoles role of
                      None \<Rightarrow> (props, visited1)
                    | Some parents \<Rightarrow> inheritFromParents parents roleInfo props visited1)))))"
| "inheritFromParents [] roleInfo props visited = (props, visited)"
| "inheritFromParents (parentName # rest) roleInfo props visited =
     (case buildAllProps parentName roleInfo visited of
        (parentProps, visited') \<Rightarrow>
          inheritFromParents rest roleInfo (addParentProps props parentProps) visited')"
  by pat_completeness auto

text \<open>The number of table keys not yet visited: it drops at every call that recurses.\<close>

definition unvisited :: "roleInfo \<Rightarrow> string set \<Rightarrow> nat" where
  "unvisited ri vis = card (fst ` set ri - vis)"

definition callMeasure ::
  "(string \<times> roleInfo \<times> string set) + (string list \<times> roleInfo \<times> property list \<times> string set)
     \<Rightarrow> nat \<times> nat" where
  "callMeasure x =
     (case x of
        Inl (r, ri, vis) \<Rightarrow> (unvisited ri vis, 0)
      | Inr (ps, ri, props, vis) \<Rightarrow> (unvisited ri vis, Suc (length ps)))"

lemma visited_grows_partial:
  "buildAllProps_inheritFromParents_dom (Inl (r, ri, vis))
     \<Longrightarrow> vis \<subseteq> snd (buildAllProps r ri vis)"
  "buildAllProps_inheritFromParents_dom (Inr (ps, ri, props, vis))
     \<Longrightarrow> vis \<subseteq> snd (inheritFromParents ps ri props vis)"
proof (induct r ri vis and ps ri props vis rule: buildAllProps_inheritFromParents.pinduct)
  case (1 roleName roleInfo visited)
  then show ?case
    by (auto simp: buildAllProps.psimps Let_def split: option.splits)
next
  case (2 roleInfo props visited)
  then show ?case by (simp add: inheritFromParents.psimps)
next
  case (3 parentName rest roleInfo props visited)
  obtain pp v' where eq: "buildAllProps parentName roleInfo visited = (pp, v')"
    by (cases "buildAllProps parentName roleInfo visited")
  from 3(2) eq have a: "visited \<subseteq> v'" by simp
  from 3(3)[OF eq[symmetric]]
  have b: "v' \<subseteq> snd (inheritFromParents rest roleInfo (addParentProps props pp) v')" .
  from 3(1) eq have "inheritFromParents (parentName # rest) roleInfo props visited
      = inheritFromParents rest roleInfo (addParentProps props pp) v'"
    by (simp add: inheritFromParents.psimps)
  with a b show ?case by simp
qed

lemma unvisited_drops:
  assumes a: "map_of ri r = Some e" and b: "r \<notin> vis"
  shows "unvisited ri (insert r vis) < unvisited ri vis"
proof -
  from a have "(r, e) \<in> set ri" by (rule map_of_SomeD)
  then have "r \<in> fst ` set ri" by force
  with b have "fst ` set ri - insert r vis \<subset> fst ` set ri - vis" by blast
  moreover have "finite (fst ` set ri - vis)" by simp
  ultimately show ?thesis unfolding unvisited_def by (rule psubset_card_mono[rotated])
qed

lemma unvisited_keeps: "vis \<subseteq> vis' \<Longrightarrow> unvisited ri vis' \<le> unvisited ri vis"
  unfolding unvisited_def by (intro card_mono) auto

lemma resolver_calls_accessible: "All buildAllProps_inheritFromParents_dom"
proof (relation "inv_image (less_than <*lex*> less_than) callMeasure", goal_cases)
  case 1
  show ?case by (intro wf_inv_image wf_lex_prod wf_less_than)
next
  case (2 roleName roleInfo visited visited1 role props parents)
  then show ?case by (simp add: callMeasure_def unvisited_drops)
next
  case (3 parentName rest roleInfo props visited)
  show ?case by (simp add: callMeasure_def)
next
  case (4 parentName rest roleInfo props visited parentProps visited')
  from 4(2) have "visited \<subseteq> snd (buildAllProps parentName roleInfo visited)"
    by (rule visited_grows_partial(1))
  with 4(1) have "visited \<subseteq> visited'" by (metis snd_conv)
  then have "unvisited roleInfo visited' \<le> unvisited roleInfo visited"
    by (rule unvisited_keeps)
  then show ?case by (simp add: callMeasure_def le_less)
qed

termination buildAllProps
  by (rule resolver_calls_accessible)

declare buildAllProps.simps [simp del]

text \<open>The call with the default argument \<^verbatim>\<open>visited = new Set()\<close>.\<close>

definition buildAllPropsFresh :: "string \<Rightarrow> roleInfo \<Rightarrow> property list" where
  "buildAllPropsFresh roleName roleInfo = fst (buildAllProps roleName roleInfo {})"

text \<open>What line 210 of the source starts from: the precomputed list of the role if it
  has one, else its local list, else nothing; and the parents the loop visits (none
  when the role is unknown or has a precomputed list).\<close>

definition ownProps :: "roleInfo \<Rightarrow> string \<Rightarrow> property list" where
  "ownProps roleInfo roleName =
     (case map_of roleInfo roleName of
        None \<Rightarrow> []
      | Some role \<Rightarrow>
          (case allprops role of
             Some ap \<Rightarrow> ap
           | None \<Rightarrow> (case localprops role of Some lp \<Rightarrow> lp | None \<Rightarrow> [])))"

definition expandsTo :: "roleInfo \<Rightarrow> string \<Rightarrow> string list" where
  "expandsTo roleInfo roleName =
     (case map_of roleInfo roleName of
        None \<Rightarrow> []
      | Some role \<Rightarrow>
          (case allprops role of
             Some ap \<Rightarrow> []
           | None \<Rightarrow> (case roleInfoEntry.parentRoles role of Some ps \<Rightarrow> ps | None \<Rightarrow> [])))"

definition propNames :: "property list \<Rightarrow> string set" where
  "propNames ps = set (map property.name ps)"

fun firstByName :: "string set \<Rightarrow> property list \<Rightarrow> property list" where
  "firstByName seen [] = []"
| "firstByName seen (p # ps) =
     (if property.name p \<in> seen then firstByName seen ps
      else p # firstByName (insert (property.name p) seen) ps)"

subsection \<open>The resolution order in the words of the specification\<close>

text \<open>
  \<open>preorderProps\<close> lists, without dropping anything, the properties in recursive
  pre-order: the role's own list first, then what each parent contributes, parents in
  the declared order, a role already visited contributing nothing. \<open>firstByName\<close>
  keeps of every property name the first entry and drops the later ones.
\<close>

function preorderProps :: "string \<Rightarrow> roleInfo \<Rightarrow> string set \<Rightarrow> property list \<times> string set"
  and preorderParents :: "string list \<Rightarrow> roleInfo \<Rightarrow> string set \<Rightarrow> property list \<times> string set"
where
  "preorderProps roleName roleInfo visited =
     (if roleName \<in> visited then ([], visited)
      else (case preorderParents (expandsTo roleInfo roleName) roleInfo (insert roleName visited) of
              (inherited, visited') \<Rightarrow> (ownProps roleInfo roleName @ inherited, visited')))"
| "preorderParents [] roleInfo visited = ([], visited)"
| "preorderParents (parentName # rest) roleInfo visited =
     (case preorderProps parentName roleInfo visited of
        (first, visited1) \<Rightarrow>
          (case preorderParents rest roleInfo visited1 of
             (others, visited2) \<Rightarrow> (first @ others, visited2)))"
  by pat_completeness auto

definition preorderMeasure ::
  "(string \<times> roleInfo \<times> string set) + (string list \<times> roleInfo \<times> string set) \<Rightarrow> nat \<times> nat" where
  "preorderMeasure x =
     (case x of
        Inl (r, ri, vis) \<Rightarrow> (unvisited ri vis, 1)
      | Inr (ps, ri, vis) \<Rightarrow> (unvisited ri vis, 2 * length ps))"

lemma preorder_grows_partial:
  "preorderProps_preorderParents_dom (Inl (r, ri, vis))
     \<Longrightarrow> vis \<subseteq> snd (preorderProps r ri vis)"
  "preorderProps_preorderParents_dom (Inr (ps, ri, vis))
     \<Longrightarrow> vis \<subseteq> snd (preorderParents ps ri vis)"
proof (induct r ri vis and ps ri vis rule: preorderProps_preorderParents.pinduct)
  case (1 roleName roleInfo visited)
  then show ?case
    by (auto simp: preorderProps.psimps split: prod.splits)
next
  case (2 roleInfo visited)
  then show ?case by (simp add: preorderParents.psimps)
next
  case (3 parentName rest roleInfo visited)
  obtain a v1 where e1: "preorderProps parentName roleInfo visited = (a, v1)"
    by (cases "preorderProps parentName roleInfo visited")
  obtain b v2 where e2: "preorderParents rest roleInfo v1 = (b, v2)"
    by (cases "preorderParents rest roleInfo v1")
  from 3(2) e1 have "visited \<subseteq> v1" by simp
  moreover from 3(3)[OF e1[symmetric]] e2 have "v1 \<subseteq> v2" by simp
  moreover from 3(1) e1 e2 have "snd (preorderParents (parentName # rest) roleInfo visited) = v2"
    by (simp add: preorderParents.psimps)
  ultimately show ?case by simp
qed

lemma expandsTo_Cons_key: "expandsTo ri r = p # ps \<Longrightarrow> \<exists>e. map_of ri r = Some e"
  by (auto simp: expandsTo_def split: option.splits)

termination preorderProps
proof (relation "inv_image (less_than <*lex*> less_than) preorderMeasure", goal_cases)
  case 1
  show ?case by (intro wf_inv_image wf_lex_prod wf_less_than)
next
  case (2 roleName roleInfo visited)
  show ?case
  proof (cases "expandsTo roleInfo roleName")
    case Nil
    have "unvisited roleInfo (insert roleName visited) \<le> unvisited roleInfo visited"
      by (rule unvisited_keeps) blast
    with Nil show ?thesis by (simp add: preorderMeasure_def le_less)
  next
    case (Cons p ps)
    then obtain e where "map_of roleInfo roleName = Some e"
      using expandsTo_Cons_key by blast
    with 2 have "unvisited roleInfo (insert roleName visited) < unvisited roleInfo visited"
      by (simp add: unvisited_drops)
    then show ?thesis by (simp add: preorderMeasure_def)
  qed
next
  case (3 parentName rest roleInfo visited)
  show ?case by (simp add: preorderMeasure_def)
next
  case (4 parentName rest roleInfo visited first visited1)
  from 4(2) have "visited \<subseteq> snd (preorderProps parentName roleInfo visited)"
    by (rule preorder_grows_partial(1))
  with 4(1) have "visited \<subseteq> visited1" by (metis snd_conv)
  then have "unvisited roleInfo visited1 \<le> unvisited roleInfo visited"
    by (rule unvisited_keeps)
  then show ?case by (simp add: preorderMeasure_def le_less)
qed

declare preorderProps.simps [simp del]

subsection \<open>Measures of a table\<close>

definition entryProps :: "roleInfoEntry \<Rightarrow> property list" where
  "entryProps role =
     (case allprops role of
        Some ap \<Rightarrow> ap
      | None \<Rightarrow> (case localprops role of Some lp \<Rightarrow> lp | None \<Rightarrow> []))"

definition tableSize :: "roleInfo \<Rightarrow> nat" where
  "tableSize ri = sum_list (map (\<lambda>(k, role). length (entryProps role)) ri)"

definition weight :: "roleInfo \<Rightarrow> string set \<Rightarrow> nat" where
  "weight ri vis = (\<Sum>k \<in> fst ` set ri - vis. length (ownProps ri k))"

definition namesOf :: "roleInfo \<Rightarrow> string set \<Rightarrow> string set" where
  "namesOf ri K = (\<Union>k\<in>K. propNames (ownProps ri k))"

definition closedUnder :: "roleInfo \<Rightarrow> string set \<Rightarrow> bool" where
  "closedUnder ri C = (\<forall>k\<in>C. set (expandsTo ri k) \<subseteq> C)"

section \<open>The parsed documents\<close>

text \<open>
  The HTML parser is a library; the model starts from what its queries return. A
  \<open>tableRow\<close> is one \<^verbatim>\<open>tr\<close> of a characteristics table (\<^verbatim>\<open>table.def\<close>):
  \<^item> \<open>th_text\<close> is \<^verbatim>\<open>$row.find('th').text()\<close>, \<open>td_text\<close> is \<^verbatim>\<open>$row.find('td').text()\<close>;
  \<^item> \<open>td_rref_a\<close>, \<open>td_a_code\<close> and \<open>td_sref_pref_a\<close> are the texts of the elements
    that \<^verbatim>\<open>$value.find('rref, a')\<close>, \<^verbatim>\<open>$value.find('a, code')\<close> and
    \<^verbatim>\<open>$value.find('sref, pref, a')\<close> select, in document order;
  \<^item> \<open>td_implicit_matches\<close> is the array that the regular expression engine returns
    for \<^verbatim>\<open>value.match(/([a-z-]+)\s*:\s*([^;,]+)/gi)\<close> (empty for \<^verbatim>\<open>null\<close>), and
    \<open>td_enum_match\<close> is the first group of
    \<^verbatim>\<open>value.match(/token(?:s)?\s*:?\s*([^|]+(?:\|[^|]+)*)/i)\<close> (\<^const>\<open>None\<close> for \<^verbatim>\<open>null\<close>).
\<close>

record tableRow =
  th_text :: string
  td_text :: string
  td_rref_a :: "string list"
  td_a_code :: "string list"
  td_sref_pref_a :: "string list"
  td_implicit_matches :: "string list"
  td_enum_match :: "string option"

text \<open>
  A definition block (\<^verbatim>\<open>div.role\<close>, \<^verbatim>\<open>div.state\<close>, \<^verbatim>\<open>div.property\<close>): its \<^verbatim>\<open>id\<close>
  attribute (\<^const>\<open>None\<close> when absent), whether it has the class \<^verbatim>\<open>state\<close>, the text of
  its description element (\<^verbatim>\<open>.role-description\<close> for a role, the first of
  \<^verbatim>\<open>.state-description, .property-description\<close> for an attribute), and the rows that
  \<^verbatim>\<open>find('table.def tbody tr, table.def tr')\<close> selects.
\<close>

record block =
  block_id :: "string option"
  hasClass_state :: bool
  description_text :: string
  def_rows :: "tableRow list"

text \<open>The primary document: \<^verbatim>\<open>$('div.role')\<close> and \<^verbatim>\<open>$('div.state, div.property')\<close>.\<close>

record ariaDocument =
  role_divs :: "block list"
  attr_divs :: "block list"

text \<open>A table of the mapping document: the text of its caption and, for every row of
  \<^verbatim>\<open>find('tbody tr')\<close>, the texts of its cells (\<^verbatim>\<open>td, th\<close>).\<close>

record aamTable =
  caption_text :: string
  body_rows :: "string list list"

record accnameDocument =
  title_text :: string
  abstract_text :: string

text \<open>
  What \<^verbatim>\<open>roleInfo.js\<close> holds once it is read: no text of the shape
  \<^verbatim>\<open>var roleInfo = {...}\<close>, an object literal whose evaluation throws (with the message),
  or an object literal that evaluates to a table.
\<close>

datatype roleInfoFile =
  NoAssignment
| EvalThrows string
| EvalReturns roleInfo

text \<open>The files under the data directory (\<^const>\<open>None\<close>: the file does not exist), the
  path of the primary document, and the clock.\<close>

record sources =
  ariaHtmlPath :: string
  ariaHtml :: "ariaDocument option"
  roleInfoJs :: "roleInfoFile option"
  accnameHtml :: "accnameDocument option"
  htmlAamHtml :: "aamTable list option"
  dpubHtml :: "block list option"
  graphicsHtml :: "block list option"
  clock :: string


section \<open>Roles\<close>

text \<open>
  A role object. \<open>parentRoles\<close>, \<open>localProps\<close>, \<open>allProps\<close> and \<open>category\<close> are not
  created by \<^verbatim>\<open>parseRoles\<close>: they are \<^const>\<open>None\<close> (\<^verbatim>\<open>undefined\<close>, left out of the JSON
  output) until a later step assigns them.
\<close>

record role =
  name :: string
  description :: string
  isAbstract :: bool
  superclassRoles :: "string list"
  subclassRoles :: "string list"
  relatedConcepts :: "string list"
  requiredContextRole :: "string list"
  requiredOwnedElements :: "string list"
  requiredStates :: "string list"
  supportedStates :: "string list"
  inheritedStates :: "string list"
  prohibitedStates :: "string list"
  nameFrom :: "string list"
  accessibleNameRequired :: bool
  childrenPresentational :: bool
  implicitValueForRole :: "(string \<times> string option) list"
  parentRoles :: "string list option"
  localProps :: "property list option"
  allProps :: "property list option"
  category :: "string option"

text \<open>\<^verbatim>\<open>.map((_, el) => cleanText($(el).text())).get().filter(Boolean)\<close>\<close>

definition elementTexts :: "string list \<Rightarrow> string list" where
  "elementTexts texts = filterBoolean (map cleanText texts)"

text \<open>One match of the implicit-value pattern: \<^verbatim>\<open>[prop, val] = match.split(':').map(s => s.trim())\<close>,
  then \<^verbatim>\<open>role.implicitValueForRole[prop] = val\<close>.\<close>

definition addImplicitValue ::
  "(string \<times> string option) list \<Rightarrow> string \<Rightarrow> (string \<times> string option) list" where
  "addImplicitValue m match =
     (case map trim (splitOn CHR '':'' [] match) of
        [] \<Rightarrow> m
      | prop # rest \<Rightarrow>
          AList.update prop (case rest of [] \<Rightarrow> None | val # others \<Rightarrow> Some val) m)"

text \<open>The body of the loop over the rows of a role's characteristics table.\<close>

definition roleRow :: "role \<Rightarrow> tableRow \<Rightarrow> role" where
  "roleRow r row =
     (let header = toLowerCase (cleanText (th_text row));
          value = cleanText (td_text row)
      in
      if includes_str header ''superclass''
        then r\<lparr>superclassRoles := elementTexts (td_rref_a row)\<rparr>
      else if includes_str header ''subclass''
        then r\<lparr>subclassRoles := elementTexts (td_rref_a row)\<rparr>
      else if includes_str header ''related concept''
        then r\<lparr>role.relatedConcepts := elementTexts (td_a_code row)\<rparr>
      else if includes_str header ''required context''
        then r\<lparr>requiredContextRole := elementTexts (td_rref_a row)\<rparr>
      else if includes_str header ''required owned'' \<or> includes_str header ''required children''
        then r\<lparr>requiredOwnedElements := elementTexts (td_rref_a row)\<rparr>
      else if includes_str header ''required state'' \<or> includes_str header ''required properties''
        then r\<lparr>requiredStates := elementTexts (td_sref_pref_a row)\<rparr>
      else if includes_str header ''supported state'' \<or> includes_str header ''supported properties''
        then r\<lparr>supportedStates := elementTexts (td_sref_pref_a row)\<rparr>
      else if includes_str header ''inherited state''
        then r\<lparr>inheritedStates := elementTexts (td_sref_pref_a row)\<rparr>
      else if includes_str header ''prohibited state'' \<or> includes_str header ''prohibited properties''
        then r\<lparr>prohibitedStates := elementTexts (td_sref_pref_a row)\<rparr>
      else if includes_str header ''name from''
        then r\<lparr>nameFrom :=
               filterBoolean (map trim (splitOnRuns isNameFromSeparator False [] value))\<rparr>
      else if includes_str header ''accessible name required''
        then r\<lparr>accessibleNameRequired := (toLowerCase value = ''true'')\<rparr>
      else if includes_str header ''children are presentational''
              \<or> includes_str header ''children presentational''
        then r\<lparr>childrenPresentational := (toLowerCase value = ''true'')\<rparr>
      else if includes_str header ''is abstract''
        then r\<lparr>isAbstract := (toLowerCase value = ''true'')\<rparr>
      else if includes_str header ''implicit value''
        then r\<lparr>implicitValueForRole :=
               foldl addImplicitValue (implicitValueForRole r) (td_implicit_matches row)\<rparr>
      else r)"

definition newRole :: "string \<Rightarrow> string \<Rightarrow> role" where
  "newRole ident descr =
     \<lparr>role.name = ident,
      role.description = cleanText descr,
      isAbstract = False,
      superclassRoles = [],
      subclassRoles = [],
      role.relatedConcepts = [],
      requiredContextRole = [],
      requiredOwnedElements = [],
      requiredStates = [],
      supportedStates = [],
      inheritedStates = [],
      prohibitedStates = [],
      nameFrom = [],
      accessibleNameRequired = False,
      childrenPresentational = False,
      implicitValueForRole = [],
      role.parentRoles = None,
      localProps = None,
      allProps = None,
      category = None\<rparr>"

text \<open>The body of the loop over \<^verbatim>\<open>div.role\<close>: a block without an \<^verbatim>\<open>id\<close> (absent or
  empty) is skipped; \<^verbatim>\<open>roles[id] = role\<close> replaces an earlier role of the same id in
  place.\<close>

definition parseRoleDiv :: "(string \<times> role) list \<Rightarrow> block \<Rightarrow> (string \<times> role) list" where
  "parseRoleDiv roles roleDiv =
     (case block_id roleDiv of
        None \<Rightarrow> roles
      | Some ident \<Rightarrow>
          if ident = [] then roles
          else AList.update ident
                 (foldl roleRow (newRole ident (description_text roleDiv)) (def_rows roleDiv))
                 roles)"

text \<open>The \<^verbatim>\<open>roles\<close> object, in the order of \<^verbatim>\<open>Object.keys\<close> (insertion order;
  identifiers are not integer-like).\<close>

definition parseRoles :: "ariaDocument \<Rightarrow> (string \<times> role) list" where
  "parseRoles doc = foldl parseRoleDiv [] (role_divs doc)"


section \<open>States and properties\<close>

record ariaAttribute =
  name :: string
  type :: string
  description :: string
  valueType :: string
  defaultValue :: string
  applicableRoles :: "string list"
  inheritedIntoRoles :: "string list"
  relatedConcepts :: "string list"
  "values" :: "string list"
  isGlobal :: bool

definition attributeRow :: "ariaAttribute \<Rightarrow> tableRow \<Rightarrow> ariaAttribute" where
  "attributeRow a row =
     (let header = toLowerCase (cleanText (th_text row));
          value = cleanText (td_text row)
      in
      if includes_str header ''value type'' \<or> includes_str header ''value''
        then a\<lparr>valueType := value,
               values := (case td_enum_match row of
                            Some g \<Rightarrow> filterBoolean (map trim (splitOn CHR ''|'' [] g))
                          | None \<Rightarrow> values a)\<rparr>
      else if includes_str header ''default''
        then a\<lparr>defaultValue := value\<rparr>
      else if includes_str header ''used in role'' \<or> includes_str header ''applicable to''
        then a\<lparr>applicableRoles := elementTexts (td_rref_a row),
               isGlobal := (if includes_str (toLowerCase value) ''all elements''
                            then True else isGlobal a)\<rparr>
      else if includes_str header ''inherited into''
        then a\<lparr>inheritedIntoRoles := elementTexts (td_rref_a row)\<rparr>
      else if includes_str header ''related concept''
        then a\<lparr>ariaAttribute.relatedConcepts := elementTexts (td_a_code row)\<rparr>
      else a)"

definition newAttribute :: "string \<Rightarrow> bool \<Rightarrow> string \<Rightarrow> ariaAttribute" where
  "newAttribute ident isState descr =
     \<lparr>ariaAttribute.name = ident,
      type = (if isState then ''state'' else ''property''),
      ariaAttribute.description = cleanText descr,
      valueType = [],
      defaultValue = [],
      applicableRoles = [],
      inheritedIntoRoles = [],
      ariaAttribute.relatedConcepts = [],
      values = [],
      isGlobal = False\<rparr>"

definition parseAttributeDiv ::
  "(string \<times> ariaAttribute) list \<Rightarrow> block \<Rightarrow> (string \<times> ariaAttribute) list" where
  "parseAttributeDiv attributes attrDiv =
     (case block_id attrDiv of
        None \<Rightarrow> attributes
      | Some ident \<Rightarrow>
          if ident = [] then attributes
          else AList.update ident
                 (foldl attributeRow
                    (newAttribute ident (hasClass_state attrDiv) (description_text attrDiv))
                    (def_rows attrDiv))
                 attributes)"

definition parseStatesAndProperties :: "ariaDocument \<Rightarrow> (string \<times> ariaAttribute) list" where
  "parseStatesAndProperties doc = foldl parseAttributeDiv [] (attr_divs doc)"


section \<open>Which row sets which field\<close>

text \<open>
  The conditions under which the chains of \<open>roleRow\<close> and \<open>attributeRow\<close> reach a
  branch: a row sets a boolean field of a role when its header matches none of the ten
  rules tried before and matches the field's phrase; \<open>cellIsTrue\<close> is the comparison
  \<^verbatim>\<open>value.toLowerCase() === 'true'\<close>. A row is an applicability row of an attribute when
  its header has neither \<^verbatim>\<open>value\<close> nor \<^verbatim>\<open>default\<close> and has \<^verbatim>\<open>used in role\<close> or
  \<^verbatim>\<open>applicable to\<close>. \<open>lastRow\<close> and \<open>lastBlock\<close> pick the last row, and the last block of
  a given non-empty id: later assignments overwrite earlier ones.
\<close>

definition rowHeader :: "tableRow \<Rightarrow> string" where
  "rowHeader row = toLowerCase (cleanText (th_text row))"

definition rowValue :: "tableRow \<Rightarrow> string" where
  "rowValue row = cleanText (td_text row)"

definition earlierRoleRule :: "string \<Rightarrow> bool" where
  "earlierRoleRule header =
     (includes_str header ''superclass''
      \<or> includes_str header ''subclass''
      \<or> includes_str header ''related concept''
      \<or> includes_str header ''required context''
      \<or> includes_str header ''required owned'' \<or> includes_str header ''required children''
      \<or> includes_str header ''required state'' \<or> includes_str header ''required properties''
      \<or> includes_str header ''supported state'' \<or> includes_str header ''supported properties''
      \<or> includes_str header ''inherited state''
      \<or> includes_str header ''prohibited state'' \<or> includes_str header ''prohibited properties''
      \<or> includes_str header ''name from'')"

definition setsAccessibleNameRequired :: "tableRow \<Rightarrow> bool" where
  "setsAccessibleNameRequired row =
     (\<not> earlierRoleRule (rowHeader row)
      \<and> includes_str (rowHeader row) ''accessible name required'')"

definition setsChildrenPresentational :: "tableRow \<Rightarrow> bool" where
  "setsChildrenPresentational row =
     (\<not> earlierRoleRule (rowHeader row)
      \<and> \<not> includes_str (rowHeader row) ''accessible name required''
      \<and> (includes_str (rowHeader row) ''children are presentational''
           \<or> includes_str (rowHeader row) ''children presentational''))"

definition setsIsAbstract :: "tableRow \<Rightarrow> bool" where
  "setsIsAbstract row =
     (\<not> earlierRoleRule (rowHeader row)
      \<and> \<not> includes_str (rowHeader row) ''accessible name required''
      \<and> \<not> includes_str (rowHeader row) ''children are presentational''
      \<and> \<not> includes_str (rowHeader row) ''children presentational''
      \<and> includes_str (rowHeader row) ''is abstract'')"

definition cellIsTrue :: "tableRow \<Rightarrow> bool" where
  "cellIsTrue row = (toLowerCase (rowValue row) = ''true'')"

definition lastRow :: "(tableRow \<Rightarrow> bool) \<Rightarrow> tableRow list \<Rightarrow> tableRow option" where
  "lastRow P rows = List.find P (rev rows)"

definition isApplicabilityRow :: "tableRow \<Rightarrow> bool" where
  "isApplicabilityRow row =
     (\<not> includes_str (rowHeader row) ''value type''
      \<and> \<not> includes_str (rowHeader row) ''value''
      \<and> \<not> includes_str (rowHeader row) ''default''
      \<and> (includes_str (rowHeader row) ''used in role''
           \<or> includes_str (rowHeader row) ''applicable to''))"

definition signalsAllElements :: "tableRow \<Rightarrow> bool" where
  "signalsAllElements row =
     (isApplicabilityRow row \<and> includes_str (toLowerCase (rowValue row)) ''all elements'')"

definition lastBlock :: "string \<Rightarrow> block list \<Rightarrow> block option" where
  "lastBlock n divs =
     (if n = [] then None else List.find (\<lambda>d. block_id d = Some n) (rev divs))"

definition roleOfBlock :: "string \<Rightarrow> block \<Rightarrow> role" where
  "roleOfBlock ident roleDiv =
     foldl roleRow (newRole ident (description_text roleDiv)) (def_rows roleDiv)"

definition attributeOfBlock :: "string \<Rightarrow> block \<Rightarrow> ariaAttribute" where
  "attributeOfBlock ident attrDiv =
     foldl attributeRow
       (newAttribute ident (hasClass_state attrDiv) (description_text attrDiv))
       (def_rows attrDiv)"


section \<open>The optional sources\<close>

text \<open>Lines written with \<^verbatim>\<open>console.warn\<close> and \<^verbatim>\<open>console.error\<close>. The progress lines of
  \<^verbatim>\<open>console.log\<close> are not modelled.\<close>

datatype diagnostic = Warn string | Error string

definition parseRoleInfoJS :: "roleInfoFile option \<Rightarrow> roleInfo \<times> diagnostic list" where
  "parseRoleInfoJS file =
     (case file of
        None \<Rightarrow> ([], [Warn ''roleInfo.js not found, skipping''])
      | Some NoAssignment \<Rightarrow> ([], [Warn ''Could not parse roleInfo.js''])
      | Some (EvalThrows message) \<Rightarrow> ([], [Warn (''Error parsing roleInfo.js: '' @ message)])
      | Some (EvalReturns table) \<Rightarrow> (table, []))"

record accnameInfo =
  title :: string
  abstract :: string
  specUrl :: string

definition parseAccName :: "accnameDocument option \<Rightarrow> accnameInfo option \<times> diagnostic list" where
  "parseAccName file =
     (case file of
        None \<Rightarrow> (None, [Warn ''accname/index.html not found''])
      | Some doc \<Rightarrow>
          (Some \<lparr>title = (if cleanText (title_text doc) = []
                           then ''Accessible Name and Description Computation''
                           else cleanText (title_text doc)),
                  accnameInfo.abstract = cleanText (abstract_text doc),
                  accnameInfo.specUrl = ''https://w3c.github.io/accname/''\<rparr>,
           []))"

record htmlMapping =
  element :: string
  implicitRole :: string

text \<open>One row of a mapping table: it needs two cells, both with text; a later row for
  the same element replaces the earlier one.\<close>

definition addMappingRow ::
  "(string \<times> htmlMapping) list \<Rightarrow> string list \<Rightarrow> (string \<times> htmlMapping) list" where
  "addMappingRow mappings cells =
     (case cells of
        c0 # c1 # others \<Rightarrow>
          (if cleanText c0 \<noteq> [] \<and> cleanText c1 \<noteq> []
           then AList.update (cleanText c0)
                  \<lparr>element = cleanText c0, implicitRole = cleanText c1\<rparr> mappings
           else mappings)
      | _ \<Rightarrow> mappings)"

definition addMappingTable ::
  "(string \<times> htmlMapping) list \<Rightarrow> aamTable \<Rightarrow> (string \<times> htmlMapping) list" where
  "addMappingTable mappings t =
     (let caption = cleanText (caption_text t) in
      if includes_str (toLowerCase caption) ''html element''
           \<or> includes_str (toLowerCase caption) ''role mapping''
      then foldl addMappingRow mappings (body_rows t)
      else mappings)"

definition parseHtmlAam ::
  "aamTable list option \<Rightarrow> (string \<times> htmlMapping) list \<times> diagnostic list" where
  "parseHtmlAam file =
     (case file of
        None \<Rightarrow> ([], [Warn ''html-aam/index.html not found''])
      | Some tables \<Rightarrow> (foldl addMappingTable [] tables, []))"

record moduleRole =
  name :: string
  module :: string
  description :: string

definition addModuleRole ::
  "string \<Rightarrow> (string \<times> moduleRole) list \<Rightarrow> block \<Rightarrow> (string \<times> moduleRole) list" where
  "addModuleRole moduleName roles roleDiv =
     (case block_id roleDiv of
        None \<Rightarrow> roles
      | Some ident \<Rightarrow>
          if ident = [] then roles
          else AList.update ident
                 \<lparr>moduleRole.name = ident,
                  module = moduleName,
                  moduleRole.description = cleanText (description_text roleDiv)\<rparr>
                 roles)"

definition parseDpubAria ::
  "block list option \<Rightarrow> (string \<times> moduleRole) list \<times> diagnostic list" where
  "parseDpubAria file =
     (case file of
        None \<Rightarrow> ([], [Warn ''dpub-aria/index.html not found''])
      | Some divs \<Rightarrow> (foldl (addModuleRole ''dpub-aria'') [] divs, []))"

definition parseGraphicsAria ::
  "block list option \<Rightarrow> (string \<times> moduleRole) list \<times> diagnostic list" where
  "parseGraphicsAria file =
     (case file of
        None \<Rightarrow> ([], [Warn ''graphics-aria/index.html not found''])
      | Some divs \<Rightarrow> (foldl (addModuleRole ''graphics-aria'') [] divs, []))"




definition moduleRoleOf :: "string \<Rightarrow> string \<Rightarrow> block \<Rightarrow> moduleRole" where
  "moduleRoleOf moduleName ident roleDiv =
     \<lparr>moduleRole.name = ident, module = moduleName,
      moduleRole.description = cleanText (description_text roleDiv)\<rparr>"




section \<open>Categories\<close>

record categories =
  abstract :: "string list"
  widget :: "string list"
  document :: "string list"
  landmark :: "string list"
  liveRegion :: "string list"
  window :: "string list"
  composite :: "string list"

definition abstractRoleNames :: "string list" where
  "abstractRoleNames =
     [''roletype'', ''structure'', ''widget'', ''window'', ''input'', ''range'', ''command'',
      ''composite'', ''section'', ''sectionhead'', ''select'', ''landmark'']"

definition widgetRoleNames :: "string list" where
  "widgetRoleNames =
     [''button'', ''checkbox'', ''gridcell'', ''link'', ''menuitem'', ''menuitemcheckbox'',
      ''menuitemradio'', ''option'', ''progressbar'', ''radio'', ''scrollbar'', ''searchbox'',
      ''separator'', ''slider'', ''spinbutton'', ''switch'', ''tab'', ''tabpanel'', ''textbox'',
      ''treeitem'']"

definition compositeRoleNames :: "string list" where
  "compositeRoleNames =
     [''combobox'', ''grid'', ''listbox'', ''menu'', ''menubar'', ''radiogroup'', ''tablist'',
      ''tree'', ''treegrid'']"

definition landmarkRoleNames :: "string list" where
  "landmarkRoleNames =
     [''banner'', ''complementary'', ''contentinfo'', ''form'', ''main'', ''navigation'',
      ''region'', ''search'']"

definition liveRegionRoleNames :: "string list" where
  "liveRegionRoleNames = [''alert'', ''log'', ''marquee'', ''status'', ''timer'']"

definition windowRoleNames :: "string list" where
  "windowRoleNames = [''alertdialog'', ''dialog'']"

text \<open>\<^verbatim>\<open>role.category = c\<close> on the object stored under \<^verbatim>\<open>roleName\<close>.\<close>

definition setCategory :: "string \<Rightarrow> role \<Rightarrow> string \<Rightarrow> (string \<times> role) list \<Rightarrow> (string \<times> role) list" where
  "setCategory roleName r c roles = AList.update roleName (r\<lparr>category := Some c\<rparr>) roles"

text \<open>The body of \<^verbatim>\<open>Object.keys(roles).forEach\<close>. The list \<^verbatim>\<open>documentRoleNames\<close> of the
  source is never read: \<^verbatim>\<open>document\<close> is the last branch.\<close>

definition categorizeRole ::
  "categories \<times> (string \<times> role) list \<Rightarrow> string \<Rightarrow> categories \<times> (string \<times> role) list" where
  "categorizeRole st roleName =
     (case st of (cats, roles) \<Rightarrow>
       (case map_of roles roleName of
          None \<Rightarrow> (cats, roles)
        | Some r \<Rightarrow>
            if isAbstract r \<or> roleName \<in> set abstractRoleNames
              then (cats\<lparr>categories.abstract := categories.abstract cats @ [roleName]\<rparr>,
                    setCategory roleName r ''abstract'' roles)
            else if roleName \<in> set landmarkRoleNames
              then (cats\<lparr>landmark := landmark cats @ [roleName]\<rparr>,
                    setCategory roleName r ''landmark'' roles)
            else if roleName \<in> set liveRegionRoleNames
              then (cats\<lparr>liveRegion := liveRegion cats @ [roleName]\<rparr>,
                    setCategory roleName r ''liveRegion'' roles)
            else if roleName \<in> set windowRoleNames
              then (cats\<lparr>window := window cats @ [roleName]\<rparr>,
                    setCategory roleName r ''window'' roles)
            else if roleName \<in> set compositeRoleNames
              then (cats\<lparr>composite := composite cats @ [roleName]\<rparr>,
                    setCategory roleName r ''composite'' roles)
            else if roleName \<in> set widgetRoleNames
              then (cats\<lparr>widget := widget cats @ [roleName]\<rparr>,
                    setCategory roleName r ''widget'' roles)
            else (cats\<lparr>document := document cats @ [roleName]\<rparr>,
                  setCategory roleName r ''document'' roles)))"

definition emptyCategories :: categories where
  "emptyCategories =
     \<lparr>categories.abstract = [], widget = [], document = [], landmark = [],
      liveRegion = [], window = [], composite = []\<rparr>"

text \<open>\<^verbatim>\<open>categorizeRoles(roles)\<close> returns the category index and, through the role
  objects it mutates, the roles with their \<^verbatim>\<open>category\<close> field.\<close>

definition categorizeRoles :: "(string \<times> role) list \<Rightarrow> categories \<times> (string \<times> role) list" where
  "categorizeRoles roles = foldl categorizeRole (emptyCategories, roles) (map fst roles)"

text \<open>\<^verbatim>\<open>categories[c]\<close> for a key \<open>c\<close>; a key outside the seven has no list.\<close>

definition categoryList :: "categories \<Rightarrow> string \<Rightarrow> string list option" where
  "categoryList cats c =
     (if c = ''abstract'' then Some (categories.abstract cats)
      else if c = ''widget'' then Some (widget cats)
      else if c = ''document'' then Some (document cats)
      else if c = ''landmark'' then Some (landmark cats)
      else if c = ''liveRegion'' then Some (liveRegion cats)
      else if c = ''window'' then Some (window cats)
      else if c = ''composite'' then Some (composite cats)
      else None)"


text \<open>
  The rule order in the words of the specification: (a) the abstract flag or the
  abstract list, (b) the landmark list, (c) the live-region list, (d) the window list,
  (e) the composite list, (f) the widget list, (g) otherwise \<^verbatim>\<open>document\<close>.
\<close>

definition ruleCategory :: "role \<Rightarrow> string \<Rightarrow> string" where
  "ruleCategory r roleName =
     (if isAbstract r \<or> roleName \<in> set abstractRoleNames then ''abstract''
      else if roleName \<in> set landmarkRoleNames then ''landmark''
      else if roleName \<in> set liveRegionRoleNames then ''liveRegion''
      else if roleName \<in> set windowRoleNames then ''window''
      else if roleName \<in> set compositeRoleNames then ''composite''
      else if roleName \<in> set widgetRoleNames then ''widget''
      else ''document'')"

definition categoryNames :: "string list" where
  "categoryNames = [''abstract'', ''widget'', ''document'', ''landmark'', ''liveRegion'', ''window'', ''composite'']"

definition categoryEntries :: "categories \<Rightarrow> string list" where
  "categoryEntries cats =
     categories.abstract cats @ widget cats @ document cats @ landmark cats
       @ liveRegion cats @ window cats @ composite cats"

definition inCategory :: "categories \<Rightarrow> string \<Rightarrow> string \<Rightarrow> bool" where
  "inCategory cats c roleName =
     (case categoryList cats c of Some l \<Rightarrow> roleName \<in> set l | None \<Rightarrow> False)"

definition pushCategory :: "categories \<Rightarrow> string \<Rightarrow> string \<Rightarrow> categories" where
  "pushCategory cats c roleName =
     (if c = ''abstract'' then cats\<lparr>categories.abstract := categories.abstract cats @ [roleName]\<rparr>
      else if c = ''landmark'' then cats\<lparr>landmark := landmark cats @ [roleName]\<rparr>
      else if c = ''liveRegion'' then cats\<lparr>liveRegion := liveRegion cats @ [roleName]\<rparr>
      else if c = ''window'' then cats\<lparr>window := window cats @ [roleName]\<rparr>
      else if c = ''composite'' then cats\<lparr>composite := composite cats @ [roleName]\<rparr>
      else if c = ''widget'' then cats\<lparr>widget := widget cats @ [roleName]\<rparr>
      else cats\<lparr>document := document cats @ [roleName]\<rparr>)"


text \<open>Auxiliary views of one step of the loop: the role with its category set, and the
  index with the role's name pushed.\<close>

definition withCategory :: "string \<times> role \<Rightarrow> string \<times> role" where
  "withCategory e = (fst e, (snd e)\<lparr>category := Some (ruleCategory (snd e) (fst e))\<rparr>)"

definition pushEntry :: "categories \<Rightarrow> string \<times> role \<Rightarrow> categories" where
  "pushEntry cats e = pushCategory cats (ruleCategory (snd e) (fst e)) (fst e)"


section \<open>The pipeline\<close>

text \<open>The loop that merges \<^verbatim>\<open>roleInfo\<close> into \<^verbatim>\<open>roles\<close>: only a name that is a key of both
  is touched.\<close>

definition mergeRoleInfoEntry ::
  "roleInfo \<Rightarrow> (string \<times> role) list \<Rightarrow> string \<times> roleInfoEntry \<Rightarrow> (string \<times> role) list" where
  "mergeRoleInfoEntry roleInfo roles entry =
     (case entry of (roleName, info) \<Rightarrow>
       (case map_of roles roleName of
          None \<Rightarrow> roles
        | Some r \<Rightarrow>
            AList.update roleName
              (r\<lparr>role.parentRoles :=
                    Some (case roleInfoEntry.parentRoles info of Some ps \<Rightarrow> ps | None \<Rightarrow> []),
                  localProps := Some (case localprops info of Some lp \<Rightarrow> lp | None \<Rightarrow> []),
                  allProps := Some (buildAllPropsFresh roleName roleInfo)\<rparr>)
              roles))"

definition mergeRoleInfo :: "roleInfo \<Rightarrow> (string \<times> role) list \<Rightarrow> (string \<times> role) list" where
  "mergeRoleInfo roleInfo roles = foldl (mergeRoleInfoEntry roleInfo) roles roleInfo"

text \<open>The split of the attributes by \<^verbatim>\<open>attr.type === 'state'\<close>.\<close>

definition statesOf :: "(string \<times> ariaAttribute) list \<Rightarrow> (string \<times> ariaAttribute) list" where
  "statesOf statesAndProperties =
     foldl (\<lambda>states (n, a). if type a = ''state'' then AList.update n a states else states)
       [] statesAndProperties"

definition propertiesOf :: "(string \<times> ariaAttribute) list \<Rightarrow> (string \<times> ariaAttribute) list" where
  "propertiesOf statesAndProperties =
     foldl (\<lambda>props (n, a). if type a = ''state'' then props else AList.update n a props)
       [] statesAndProperties"

text \<open>\<^verbatim>\<open>Object.keys(statesAndProperties).filter(name => statesAndProperties[name].isGlobal).sort()\<close>\<close>

definition globalNames :: "(string \<times> ariaAttribute) list \<Rightarrow> string list" where
  "globalNames statesAndProperties =
     sort (filter (\<lambda>n. case map_of statesAndProperties n of
                          Some a \<Rightarrow> isGlobal a
                        | None \<Rightarrow> False)
             (map fst statesAndProperties))"

record metadata =
  version :: string
  generatedAt :: string
  sourceUrl :: string
  specUrl :: string

record extensions =
  dpub :: "(string \<times> moduleRole) list"
  graphics :: "(string \<times> moduleRole) list"

record serverInfo =
  name :: string
  version :: string
  description :: string

text \<open>The object written to \<^verbatim>\<open>aria-data.json\<close>.\<close>

record ariaData =
  metadata :: metadata
  roles :: "(string \<times> role) list"
  roleCategories :: categories
  states :: "(string \<times> ariaAttribute) list"
  properties :: "(string \<times> ariaAttribute) list"
  globalStatesAndProperties :: "string list"
  htmlMappings :: "(string \<times> htmlMapping) list"
  extensions :: extensions
  accname :: "accnameInfo option"
  serverInfo :: serverInfo

text \<open>What a run leaves behind: the warning and error lines, the exit code when
  \<^verbatim>\<open>process.exit\<close> was called, and the content of the output file when it was written.\<close>

record run =
  diagnostics :: "diagnostic list"
  exitCode :: "nat option"
  written :: "ariaData option"

definition main :: "sources \<Rightarrow> run" where
  "main src =
     (case ariaHtml src of
        None \<Rightarrow>
          \<lparr>diagnostics = [Error (''ARIA index.html not found at: '' @ ariaHtmlPath src)],
           exitCode = Some 1,
           written = None\<rparr>
      | Some doc \<Rightarrow>
          (let roles0 = parseRoles doc;
               statesAndProperties = parseStatesAndProperties doc;
               (roleInfo, w1) = parseRoleInfoJS (roleInfoJs src);
               roles1 = mergeRoleInfo roleInfo roles0;
               (cats, roles2) = categorizeRoles roles1;
               (accnameData, w2) = parseAccName (accnameHtml src);
               (mappings, w3) = parseHtmlAam (htmlAamHtml src);
               (dpubRoles, w4) = parseDpubAria (dpubHtml src);
               (graphicsRoles, w5) = parseGraphicsAria (graphicsHtml src)
           in
           \<lparr>diagnostics = w1 @ w2 @ w3 @ w4 @ w5,
            exitCode = None,
            written = Some
              \<lparr>metadata =
                 \<lparr>metadata.version = ''1.3'',
                  generatedAt = clock src,
                  sourceUrl = ''https://github.com/w3c/aria'',
                  metadata.specUrl = ''https://w3c.github.io/aria/''\<rparr>,
               roles = roles2,
               roleCategories = cats,
               states = statesOf statesAndProperties,
               properties = propertiesOf statesAndProperties,
               globalStatesAndProperties = globalNames statesAndProperties,
               htmlMappings = mappings,
               extensions = \<lparr>dpub = dpubRoles, graphics = graphicsRoles\<rparr>,
               accname = accnameData,
               serverInfo =
                 \<lparr>serverInfo.name = ''aria-mcp'',
                  serverInfo.version = ''1.0.0'',
                  serverInfo.description =
                    ''ARIA specification MCP server for accessibility professionals and AI agents''\<rparr>\<rparr>\<rparr>))"


section \<open>Example inputs\<close>

definition cyclicTable :: roleInfo where
  "cyclicTable =
     [(''a'', \<lparr>roleInfoEntry.parentRoles = Some [''b'', ''a''],
              localprops = Some [\<lparr>property.name = ''aria-x'', required = True, deprecated = False, disallowed = False\<rparr>],
              allprops = None\<rparr>),
      (''b'', \<lparr>roleInfoEntry.parentRoles = Some [''a''],
              localprops = Some [\<lparr>property.name = ''aria-x'', required = False, deprecated = False, disallowed = False\<rparr>,
                                 \<lparr>property.name = ''aria-y'', required = False, deprecated = False, disallowed = False\<rparr>],
              allprops = None\<rparr>)]"

definition switchTable :: roleInfo where
  "switchTable =
     [(''switch'', \<lparr>roleInfoEntry.parentRoles = Some [''checkbox''],
              localprops = Some [\<lparr>property.name = ''aria-checked'', required = True, deprecated = False, disallowed = False\<rparr>],
              allprops = None\<rparr>),
      (''checkbox'', \<lparr>roleInfoEntry.parentRoles = Some [''input''],
              localprops = None,
              allprops = Some [\<lparr>property.name = ''aria-checked'', required = False, deprecated = False, disallowed = False\<rparr>,
                                 \<lparr>property.name = ''aria-label'', required = False, deprecated = False, disallowed = False\<rparr>]\<rparr>)]"

definition duplicateLocalTable :: roleInfo where
  "duplicateLocalTable =
     [(''tab'', \<lparr>roleInfoEntry.parentRoles = Some [],
              localprops = Some [\<lparr>property.name = ''aria-selected'', required = False, deprecated = False, disallowed = False\<rparr>,
                                 \<lparr>property.name = ''aria-selected'', required = True, deprecated = False, disallowed = False\<rparr>],
              allprops = None\<rparr>)]"

definition repeatedLocalTable :: roleInfo where
  "repeatedLocalTable =
     [(''option'', \<lparr>roleInfoEntry.parentRoles = Some [''input''],
              localprops = Some [\<lparr>property.name = ''aria-selected'', required = False, deprecated = False, disallowed = False\<rparr>,
                                 \<lparr>property.name = ''aria-selected'', required = True, deprecated = False, disallowed = False\<rparr>],
              allprops = None\<rparr>),
      (''input'', \<lparr>roleInfoEntry.parentRoles = None,
              localprops = Some [\<lparr>property.name = ''aria-disabled'', required = False, deprecated = False, disallowed = False\<rparr>],
              allprops = None\<rparr>)]"

definition precomputedTable :: roleInfo where
  "precomputedTable =
     [(''link'', \<lparr>roleInfoEntry.parentRoles = Some [''command''],
              localprops = Some [],
              allprops = Some [\<lparr>property.name = ''aria-expanded'', required = False, deprecated = False, disallowed = False\<rparr>]\<rparr>),
      (''command'', \<lparr>roleInfoEntry.parentRoles = None,
              localprops = Some [\<lparr>property.name = ''aria-label'', required = False, deprecated = False, disallowed = False\<rparr>],
              allprops = None\<rparr>)]"

definition sampleRoles :: "(string \<times> role) list" where
  "sampleRoles =
     [(''button'', newRole ''button'' ''An input that allows for user-triggered actions.''),
      (''alert'', newRole ''alert'' ''A type of live region.''),
      (''widget'', newRole ''widget'' ''An interactive component.''),
      (''main'', (newRole ''main'' ''The main content.'')\<lparr>isAbstract := True\<rparr>),
      (''mark'', newRole ''mark'' ''Marked content.'')]"

definition plainRow :: "string \<Rightarrow> string \<Rightarrow> string list \<Rightarrow> tableRow" where
  "plainRow header cell refs =
     \<lparr>th_text = header, td_text = cell, td_rref_a = refs, td_a_code = [], td_sref_pref_a = refs,
      td_implicit_matches = [], td_enum_match = None\<rparr>"

definition attributeDoc :: ariaDocument where
  "attributeDoc =
     \<lparr>role_divs = [],
      attr_divs =
        [\<lparr>block_id = Some ''aria-atomic'', hasClass_state = False, description_text = ''Atomic.'',
          def_rows = [plainRow ''Used in Roles:'' ''All elements of the base markup'' []]\<rparr>,
         \<lparr>block_id = Some ''aria-label'', hasClass_state = False, description_text = ''Label.'',
          def_rows = [plainRow ''Used in Roles:'' ''Any element'' []]\<rparr>,
         \<lparr>block_id = Some ''aria-pressed'', hasClass_state = True, description_text = ''Pressed.'',
          def_rows = [plainRow ''Used in Roles:'' ''button, link'' [''button'', ''link'']]\<rparr>,
         \<lparr>block_id = Some ''aria-busy'', hasClass_state = True, description_text = ''Busy.'',
          def_rows = [plainRow ''Used in Roles:''
                        (CHR ''A'' # CHR ''l'' # CHR ''l'' # CHR 0xA0 # ''elements of the base markup'')
                        []]\<rparr>]\<rparr>"

definition onlyPrimary :: "ariaDocument \<Rightarrow> sources" where
  "onlyPrimary doc =
     \<lparr>ariaHtmlPath = ''data/aria/index.html'', ariaHtml = Some doc, roleInfoJs = None,
      accnameHtml = None, htmlAamHtml = None, dpubHtml = None, graphicsHtml = None,
      clock = ''2025-01-01T00:00:00.000Z''\<rparr>"

definition booleanDoc :: ariaDocument where
  "booleanDoc =
     \<lparr>role_divs =
        [\<lparr>block_id = Some ''widget'', hasClass_state = False, description_text = ''An interactive component.'',
          def_rows = [plainRow ''Is Abstract:'' ''True'' [],
                      plainRow ''Superclass Role:'' ''roletype'' [''roletype'']]\<rparr>,
         \<lparr>block_id = Some ''button'', hasClass_state = False, description_text = ''A button.'',
          def_rows = [plainRow ''Accessible Name Required:'' '' TRUE '' [],
                      plainRow ''Children Presentational:'' ''True (see note)'' []]\<rparr>,
         \<lparr>block_id = Some ''link'', hasClass_state = False, description_text = ''A link.'',
          def_rows = []\<rparr>],
      attr_divs = []\<rparr>"

text \<open>A role whose \<^verbatim>\<open>Is Abstract\<close> row comes twice, and one whose header and cell hold a
  no-break space.\<close>

definition tokenDoc :: ariaDocument where
  "tokenDoc =
     \<lparr>role_divs =
        [\<lparr>block_id = Some ''range'', hasClass_state = False, description_text = ''A range.'',
          def_rows = [plainRow ''Is Abstract:'' ''true'' [],
                      plainRow ''Is Abstract:'' [] []]\<rparr>,
         \<lparr>block_id = Some ''checkbox'', hasClass_state = False, description_text = ''A checkbox.'',
          def_rows = [plainRow (CHR ''I'' # CHR ''s'' # CHR 0xA0 # ''Abstract:'')
                        (CHR 0xA0 # ''true'') []]\<rparr>],
      attr_divs = []\<rparr>"

definition absentSources :: sources where
  "absentSources =
     (onlyPrimary booleanDoc)\<lparr>roleInfoJs := Some (EvalReturns switchTable)\<rparr>"









definition moduleExampleDoc :: ariaDocument where
  "moduleExampleDoc =
     \<lparr>role_divs =
        [\<lparr>block_id = Some ''doc-example'', hasClass_state = False,
          description_text = ''A primary role of the same name.'',
          def_rows = [plainRow ''Is Abstract:'' ''True'' []]\<rparr>],
      attr_divs = []\<rparr>"

definition moduleSources :: sources where
  "moduleSources =
     (onlyPrimary moduleExampleDoc)
       \<lparr>dpubHtml := Some [\<lparr>block_id = Some ''doc-example'', hasClass_state = False,
                           description_text = ''An illustrative example.'', def_rows = []\<rparr>],
        graphicsHtml := Some [\<lparr>block_id = Some ''doc-example'', hasClass_state = False,
                               description_text = ''A graphics example.'', def_rows = []\<rparr>]\<rparr>"


section \<open>Properties of the resolver\<close>


lemma buildAllProps_unfold:
  "buildAllProps r ri vis =
     (if r \<in> vis then ([], vis)
      else inheritFromParents (expandsTo ri r) ri (ownProps ri r) (insert r vis))"
  by (simp add: buildAllProps.simps[of r ri vis] ownProps_def expandsTo_def Let_def split: option.splits)

lemma resolver_induct [case_names build nil cons]:
  assumes build: "\<And>r ri vis.
        (r \<notin> vis \<Longrightarrow> Q (expandsTo ri r) ri (ownProps ri r) (insert r vis)) \<Longrightarrow> P r ri vis"
    and nil: "\<And>ri props vis. Q [] ri props vis"
    and cons: "\<And>p rest ri props vis.
        P p ri vis \<Longrightarrow>
        Q rest ri (addParentProps props (fst (buildAllProps p ri vis))) (snd (buildAllProps p ri vis)) \<Longrightarrow>
        Q (p # rest) ri props vis"
  shows "P r ri vis" and "Q ps ri props vis"
proof (induct r ri vis and ps ri props vis rule: buildAllProps_inheritFromParents.induct)
  case (1 roleName roleInfo visited)
  show ?case
  proof (rule build)
    assume nv: "roleName \<notin> visited"
    show "Q (expandsTo roleInfo roleName) roleInfo (ownProps roleInfo roleName) (insert roleName visited)"
    proof (cases "expandsTo roleInfo roleName")
      case Nil
      then show ?thesis by (simp add: nil)
    next
      case (Cons a list)
      then obtain role where r: "map_of roleInfo roleName = Some role" "allprops role = None"
        "roleInfoEntry.parentRoles role = Some (expandsTo roleInfo roleName)"
        by (auto simp: expandsTo_def split: option.splits)
      from r have own: "ownProps roleInfo roleName = (case localprops role of None \<Rightarrow> [] | Some lp \<Rightarrow> lp)"
        by (simp add: ownProps_def)
      show ?thesis using 1[OF nv refl r(1) r(2) own r(3)] by simp
    qed
  qed
next
  case (2 roleInfo props visited)
  show ?case by (rule nil)
next
  case (3 parentName rest roleInfo props visited)
  show ?case
    by (rule cons) (use 3 in \<open>auto simp: prod_eq_iff\<close>)
qed


subsection \<open>addParentProps\<close>

lemma propNames_simps [simp]:
  "propNames [] = {}"
  "propNames (p # ps) = insert (property.name p) (propNames ps)"
  "propNames (xs @ ys) = propNames xs \<union> propNames ys"
  by (auto simp: propNames_def)

lemma find_name_None: "(List.find (\<lambda>p. property.name p = n) props = None) = (n \<notin> propNames props)"
  by (auto simp: find_None_iff propNames_def)

lemma addParentProps_closed:
  "addParentProps props pps = props @ firstByName (propNames props) pps"
  by (induction pps arbitrary: props) (simp_all add: find_name_None Un_commute)

lemma propNames_firstByName: "propNames (firstByName S xs) = propNames xs - S"
  by (induction xs arbitrary: S) auto

lemma distinct_firstByName: "distinct (map property.name (firstByName S xs))"
proof (induction xs arbitrary: S)
  case Nil
  show ?case by simp
next
  case (Cons p ps)
  have "property.name p \<notin> propNames (firstByName (insert (property.name p) S) ps)"
    by (simp add: propNames_firstByName)
  then show ?case using Cons by (simp add: propNames_def)
qed

lemma firstByName_append:
  "firstByName S (xs @ ys) = firstByName S xs @ firstByName (S \<union> propNames xs) ys"
  by (induction xs arbitrary: S) (simp_all add: insert_absorb)

lemma firstByName_idem: "T \<subseteq> S \<Longrightarrow> firstByName S (firstByName T xs) = firstByName S xs"
proof (induction xs arbitrary: S T)
  case Nil
  show ?case by simp
next
  case (Cons p ps)
  show ?case
  proof (cases "property.name p \<in> T")
    case True
    with Cons show ?thesis by auto
  next
    case False
    show ?thesis
    proof (cases "property.name p \<in> S")
      case True
      with Cons.prems have "insert (property.name p) T \<subseteq> S" by blast
      from Cons.IH[OF this] True False show ?thesis by simp
    next
      case notS: False
      from Cons.prems have "insert (property.name p) T \<subseteq> insert (property.name p) S" by blast
      from Cons.IH[OF this] notS False show ?thesis by simp
    qed
  qed
qed

lemma firstByName_distinct_id:
  "distinct (map property.name xs) \<Longrightarrow> propNames xs \<inter> S = {} \<Longrightarrow> firstByName S xs = xs"
  by (induction xs arbitrary: S) (auto simp: propNames_def)

lemma set_firstByName: "set (firstByName S xs) \<subseteq> set xs"
  by (induction xs arbitrary: S) auto

lemma length_firstByName: "length (firstByName S xs) \<le> length xs"
  by (induction xs arbitrary: S) (auto simp: le_SucI)




lemma preorderProps_unfold:
  "preorderProps r ri vis =
     (if r \<in> vis then ([], vis)
      else (ownProps ri r @ fst (preorderParents (expandsTo ri r) ri (insert r vis)),
            snd (preorderParents (expandsTo ri r) ri (insert r vis))))"
  by (simp add: preorderProps.simps[of r ri vis] split: prod.splits)

lemma preorderParents_Cons:
  "preorderParents (p # rest) ri vis =
     (fst (preorderProps p ri vis) @ fst (preorderParents rest ri (snd (preorderProps p ri vis))),
      snd (preorderParents rest ri (snd (preorderProps p ri vis))))"
  by (simp split: prod.splits)

lemma inheritFromParents_Cons:
  "inheritFromParents (p # rest) ri props vis =
     inheritFromParents rest ri (addParentProps props (fst (buildAllProps p ri vis)))
       (snd (buildAllProps p ri vis))"
  by (simp split: prod.splits)

declare inheritFromParents.simps(2) [simp del] preorderParents.simps(2) [simp del]

lemma Un_propNames_firstByName: "S \<union> propNames (firstByName S xs) = S \<union> propNames xs"
  by (auto simp: propNames_firstByName)

lemma firstByName_own_inh:
  "firstByName S (own @ firstByName (propNames own) inh) = firstByName S (own @ inh)"
  by (simp add: firstByName_append firstByName_idem)

lemma resolver_preorder:
  "buildAllProps r ri vis =
     (if r \<in> vis then ([], vis)
      else (ownProps ri r @
              firstByName (propNames (ownProps ri r))
                (fst (preorderParents (expandsTo ri r) ri (insert r vis))),
            snd (preorderParents (expandsTo ri r) ri (insert r vis))))"
  "inheritFromParents ps ri props vis =
     (props @ firstByName (propNames props) (fst (preorderParents ps ri vis)),
      snd (preorderParents ps ri vis))"
proof (induct r ri vis and ps ri props vis rule: resolver_induct)
  case (build r ri vis)
  then show ?case by (simp add: buildAllProps_unfold[of r ri vis])
next
  case (nil ri props vis)
  show ?case by simp
next
  case (cons p rest ri props vis)
  let ?B = "fst (buildAllProps p ri vis)"
  let ?C = "fst (preorderProps p ri vis)"
  have snd_eq: "snd (buildAllProps p ri vis) = snd (preorderProps p ri vis)"
    by (simp add: cons(1) preorderProps_unfold[of p ri vis])
  have fb: "firstByName S ?B = firstByName S ?C" for S
    by (simp add: cons(1) preorderProps_unfold[of p ri vis] firstByName_own_inh)
  have nm: "propNames ?B = propNames ?C"
    by (auto simp: cons(1) preorderProps_unfold[of p ri vis] propNames_firstByName)
  have pn: "propNames (addParentProps props ?B) = propNames props \<union> propNames ?C"
    by (auto simp: addParentProps_closed propNames_firstByName nm)
  have "inheritFromParents (p # rest) ri props vis =
      inheritFromParents rest ri (addParentProps props ?B) (snd (preorderProps p ri vis))"
    by (simp add: inheritFromParents_Cons snd_eq)
  also have "\<dots> = (addParentProps props ?B @
        firstByName (propNames (addParentProps props ?B))
          (fst (preorderParents rest ri (snd (preorderProps p ri vis)))),
        snd (preorderParents rest ri (snd (preorderProps p ri vis))))"
    using cons(2) by (simp add: snd_eq)
  also have "\<dots> = (props @ firstByName (propNames props)
        (?C @ fst (preorderParents rest ri (snd (preorderProps p ri vis)))),
        snd (preorderParents rest ri (snd (preorderProps p ri vis))))"
    by (simp add: firstByName_append addParentProps_closed fb Un_propNames_firstByName)
  finally show ?case by (simp add: preorderParents_Cons)
qed


subsection \<open>The visited set\<close>

lemma visited_grows:
  "vis \<subseteq> snd (buildAllProps r ri vis)"
  "vis \<subseteq> snd (inheritFromParents ps ri props vis)"
proof (induct r ri vis and ps ri props vis rule: resolver_induct)
  case (build r ri vis)
  then show ?case by (auto simp: buildAllProps_unfold[of r ri vis])
next
  case (nil ri props vis)
  show ?case by simp
next
  case (cons p rest ri props vis)
  then show ?case by (auto simp: inheritFromParents_Cons)
qed

lemma visited_self: "r \<in> snd (buildAllProps r ri vis)"
  using visited_grows(2)[of "insert r vis" "expandsTo ri r" ri "ownProps ri r"]
  by (auto simp: buildAllProps_unfold[of r ri vis])

lemma namesOf_Un: "namesOf ri (A \<union> B) = namesOf ri A \<union> namesOf ri B"
  by (auto simp: namesOf_def)

lemma namesOf_mono: "A \<subseteq> B \<Longrightarrow> namesOf ri A \<subseteq> namesOf ri B"
  by (auto simp: namesOf_def)

lemma propNames_addParentProps:
  "propNames (addParentProps props pps) = propNames props \<union> propNames pps"
  by (auto simp: addParentProps_closed propNames_firstByName)

lemma resolver_names:
  "propNames (fst (buildAllProps r ri vis)) = namesOf ri (snd (buildAllProps r ri vis) - vis)"
  "propNames (fst (inheritFromParents ps ri props vis)) =
     propNames props \<union> namesOf ri (snd (inheritFromParents ps ri props vis) - vis)"
proof (induct r ri vis and ps ri props vis rule: resolver_induct)
  case (build r ri vis)
  show ?case
  proof (cases "r \<in> vis")
    case True
    then show ?thesis by (simp add: buildAllProps_unfold[of r ri vis] namesOf_def)
  next
    case False
    let ?V = "snd (inheritFromParents (expandsTo ri r) ri (ownProps ri r) (insert r vis))"
    have "insert r vis \<subseteq> ?V" by (rule visited_grows(2))
    with False have "?V - vis = insert r (?V - insert r vis)" by blast
    then have "namesOf ri (?V - vis) = propNames (ownProps ri r) \<union> namesOf ri (?V - insert r vis)"
      by (simp add: namesOf_def)
    with build[OF False] False show ?thesis
      by (simp add: buildAllProps_unfold[of r ri vis])
  qed
next
  case (nil ri props vis)
  show ?case by (simp add: namesOf_def)
next
  case (cons p rest ri props vis)
  let ?v1 = "snd (buildAllProps p ri vis)"
  let ?v2 = "snd (inheritFromParents (p # rest) ri props vis)"
  have v2: "?v2 = snd (inheritFromParents rest ri (addParentProps props (fst (buildAllProps p ri vis))) ?v1)"
    by (simp add: inheritFromParents_Cons)
  have a: "vis \<subseteq> ?v1" by (rule visited_grows(1))
  have b: "?v1 \<subseteq> ?v2" unfolding v2 by (rule visited_grows(2))
  from a b have "?v2 - vis = (?v1 - vis) \<union> (?v2 - ?v1)" by blast
  then have "namesOf ri (?v2 - vis) = namesOf ri (?v1 - vis) \<union> namesOf ri (?v2 - ?v1)"
    by (simp add: namesOf_Un)
  with cons show ?case
    by (simp add: inheritFromParents_Cons propNames_addParentProps Un_assoc)
qed

lemma resolver_closure:
  "\<forall>k \<in> snd (buildAllProps r ri vis) - vis. set (expandsTo ri k) \<subseteq> snd (buildAllProps r ri vis)"
  "(\<forall>k \<in> snd (inheritFromParents ps ri props vis) - vis.
       set (expandsTo ri k) \<subseteq> snd (inheritFromParents ps ri props vis))
   \<and> set ps \<subseteq> snd (inheritFromParents ps ri props vis)"
proof (induct r ri vis and ps ri props vis rule: resolver_induct)
  case (build r ri vis)
  show ?case
  proof (cases "r \<in> vis")
    case True
    then show ?thesis by (simp add: buildAllProps_unfold[of r ri vis])
  next
    case False
    from build[OF False] False show ?thesis
      by (auto simp: buildAllProps_unfold[of r ri vis])
  qed
next
  case (nil ri props vis)
  show ?case by simp
next
  case (cons p rest ri props vis)
  let ?v1 = "snd (buildAllProps p ri vis)"
  let ?v2 = "snd (inheritFromParents (p # rest) ri props vis)"
  have v2: "?v2 = snd (inheritFromParents rest ri (addParentProps props (fst (buildAllProps p ri vis))) ?v1)"
    by (simp add: inheritFromParents_Cons)
  have b: "?v1 \<subseteq> ?v2" unfolding v2 by (rule visited_grows(2))
  have p: "p \<in> ?v1" by (rule visited_self)
  show ?case
  proof (intro conjI ballI)
    fix k assume k: "k \<in> ?v2 - vis"
    show "set (expandsTo ri k) \<subseteq> ?v2"
    proof (cases "k \<in> ?v1")
      case True
      with k cons(1) have "set (expandsTo ri k) \<subseteq> ?v1" by blast
      with b show ?thesis by blast
    next
      case False
      with k have "k \<in> ?v2 - ?v1" by blast
      with cons(2) show ?thesis unfolding v2 by blast
    qed
  next
    from cons(2) have "set rest \<subseteq> ?v2" unfolding v2 by blast
    with p b show "set (p # rest) \<subseteq> ?v2" by auto
  qed
qed

lemma resolver_minimal:
  "closedUnder ri C \<Longrightarrow> r \<in> C \<Longrightarrow> snd (buildAllProps r ri vis) \<subseteq> vis \<union> C"
  "closedUnder ri C \<Longrightarrow> set ps \<subseteq> C \<Longrightarrow> snd (inheritFromParents ps ri props vis) \<subseteq> vis \<union> C"
proof (induct r ri vis and ps ri props vis rule: resolver_induct)
  case (build r ri vis)
  show ?case
  proof (cases "r \<in> vis")
    case True
    then show ?thesis by (simp add: buildAllProps_unfold[of r ri vis])
  next
    case False
    from build(2,3) have "set (expandsTo ri r) \<subseteq> C" by (auto simp: closedUnder_def)
    from build(1)[OF False build(2) this] build(3) False show ?thesis
      by (auto simp: buildAllProps_unfold[of r ri vis])
  qed
next
  case (nil ri props vis)
  show ?case by simp
next
  case (cons p rest ri props vis)
  from cons(4) have pc: "p \<in> C" and rc: "set rest \<subseteq> C" by auto
  from cons(1)[OF cons(3) pc] cons(2)[OF cons(3) rc] show ?case
    by (auto simp: inheritFromParents_Cons)
qed

lemma fresh_closed: "closedUnder ri (snd (buildAllProps r ri {}))"
  using resolver_closure(1)[of r ri "{}"] by (simp add: closedUnder_def)

lemma parent_names_subset:
  assumes "p \<in> set (expandsTo ri r)"
  shows "propNames (buildAllPropsFresh p ri) \<subseteq> propNames (buildAllPropsFresh r ri)"
proof -
  let ?VR = "snd (buildAllProps r ri {})"
  have cl: "closedUnder ri ?VR" by (rule fresh_closed)
  have "r \<in> ?VR" by (rule visited_self)
  with cl assms have "p \<in> ?VR" by (auto simp: closedUnder_def)
  from resolver_minimal(1)[OF cl this, of "{}"] have "snd (buildAllProps p ri {}) \<subseteq> ?VR" by simp
  then have "namesOf ri (snd (buildAllProps p ri {})) \<subseteq> namesOf ri ?VR" by (rule namesOf_mono)
  then show ?thesis
    using resolver_names(1)[of p ri "{}"] resolver_names(1)[of r ri "{}"]
    by (simp add: buildAllPropsFresh_def)
qed


subsection \<open>Size of the result\<close>

lemma ownProps_notin: "r \<notin> fst ` set ri \<Longrightarrow> ownProps ri r = []"
proof -
  assume "r \<notin> fst ` set ri"
  then have "map_of ri r = None" by (simp add: map_of_eq_None_iff)
  then show ?thesis by (simp add: ownProps_def)
qed

lemma weight_insert:
  assumes "r \<notin> vis"
  shows "weight ri vis = length (ownProps ri r) + weight ri (insert r vis)"
proof (cases "r \<in> fst ` set ri")
  case True
  with assms have eq: "fst ` set ri - vis = insert r (fst ` set ri - insert r vis)" by blast
  have "r \<notin> fst ` set ri - insert r vis" by blast
  then show ?thesis unfolding weight_def by (subst eq) (simp add: sum.insert)
next
  case False
  then have "fst ` set ri - insert r vis = fst ` set ri - vis" by blast
  with False show ?thesis by (simp add: weight_def ownProps_notin)
qed

lemma length_addParentProps: "length (addParentProps props pps) \<le> length props + length pps"
  using length_firstByName[of "propNames props" pps] by (simp add: addParentProps_closed)

lemma resolver_weight:
  "length (fst (buildAllProps r ri vis)) + weight ri (snd (buildAllProps r ri vis)) \<le> weight ri vis"
  "length (fst (inheritFromParents ps ri props vis)) + weight ri (snd (inheritFromParents ps ri props vis))
     \<le> length props + weight ri vis"
proof (induct r ri vis and ps ri props vis rule: resolver_induct)
  case (build r ri vis)
  show ?case
  proof (cases "r \<in> vis")
    case True
    then show ?thesis by (simp add: buildAllProps_unfold[of r ri vis])
  next
    case False
    from build[OF False] weight_insert[OF False, of ri] False show ?thesis
      by (simp add: buildAllProps_unfold[of r ri vis])
  qed
next
  case (nil ri props vis)
  show ?case by simp
next
  case (cons p rest ri props vis)
  from cons length_addParentProps[of props "fst (buildAllProps p ri vis)"] show ?case
    by (simp add: inheritFromParents_Cons)
qed

lemma weight_le_tableSize: "weight ri vis \<le> tableSize ri"
proof -
  have "weight ri vis \<le> weight ri {}"
    unfolding weight_def by (rule sum_mono2) auto
  also have "weight ri {} \<le> tableSize ri"
  proof (induction ri)
    case Nil
    show ?case by (simp add: weight_def tableSize_def)
  next
    case (Cons a ri)
    obtain k e where a: "a = (k, e)" by (cases a)
    have own_k: "ownProps ((k, e) # ri) k = entryProps e"
      by (simp add: ownProps_def entryProps_def)
    have own_other: "k' \<noteq> k \<Longrightarrow> ownProps ((k, e) # ri) k' = ownProps ri k'" for k'
      by (simp add: ownProps_def)
    have "weight (a # ri) {} =
        (\<Sum>k' \<in> insert k (fst ` set ri). length (ownProps ((k, e) # ri) k'))"
      by (simp add: weight_def a)
    also have "\<dots> = length (entryProps e) +
        (\<Sum>k' \<in> fst ` set ri - {k}. length (ownProps ((k, e) # ri) k'))"
      by (simp add: sum.insert_remove own_k)
    also have "(\<Sum>k' \<in> fst ` set ri - {k}. length (ownProps ((k, e) # ri) k')) =
        (\<Sum>k' \<in> fst ` set ri - {k}. length (ownProps ri k'))"
      by (rule sum.cong) (auto simp: own_other)
    also have "\<dots> \<le> weight ri {}"
      unfolding weight_def by (rule sum_mono2) auto
    finally have "weight (a # ri) {} \<le> length (entryProps e) + weight ri {}" by simp
    with Cons show ?case by (simp add: tableSize_def a)
  qed
  finally show ?thesis .
qed

subsection \<open>Claims about the resolver\<close>

text \<open>
  Claim C4. On every table, cyclic or not, and from every visited set, the call
  \<^verbatim>\<open>buildAllProps(roleName, roleInfo, visited)\<close> terminates: its argument lies in the
  accessible part of the call relation of the recursion. The list it returns has at
  most as many entries as the table holds, and a role that is already in the visited
  set resolves to the empty list and leaves the set as it is.
\<close>

theorem buildAllProps_terminates:
  "buildAllProps_inheritFromParents_dom (Inl (roleName, roleInfo, visited))
   \<and> length (fst (buildAllProps roleName roleInfo visited)) \<le> tableSize roleInfo
   \<and> (roleName \<in> visited \<longrightarrow> buildAllProps roleName roleInfo visited = ([], visited))"
proof (intro conjI impI)
  show "buildAllProps_inheritFromParents_dom (Inl (roleName, roleInfo, visited))"
    using resolver_calls_accessible by blast
  show "length (fst (buildAllProps roleName roleInfo visited)) \<le> tableSize roleInfo"
    using resolver_weight(1)[of roleName roleInfo visited] weight_le_tableSize[of roleInfo visited]
    by simp
  show "buildAllProps roleName roleInfo visited = ([], visited)" if "roleName \<in> visited"
    using that by (simp add: buildAllProps.simps)
qed

theorem buildAllProps_terminates_witness:
  "''a'' \<in> {''a''} \<and> buildAllProps ''a'' cyclicTable {''a''} = ([], {''a''})
   \<and> length (fst (buildAllProps ''b'' cyclicTable {})) \<le> 3
   \<and> fst (buildAllProps ''b'' cyclicTable {}) =
      [\<lparr>property.name = ''aria-x'', required = False, deprecated = False, disallowed = False\<rparr>,
       \<lparr>property.name = ''aria-y'', required = False, deprecated = False, disallowed = False\<rparr>]"
  using buildAllProps_terminates[of "''a''" cyclicTable "{''a''}"]
    buildAllProps_terminates[of "''b''" cyclicTable "{}"]
  by (simp add: cyclicTable_def tableSize_def entryProps_def buildAllProps.simps inheritFromParents.simps)


text \<open>
  Claim C3, amended. When the role's own list (its precomputed list, else its local
  list) has no two entries of the same name, the list that \<^verbatim>\<open>buildAllProps\<close> returns
  has no two entries of the same name, and it is the pre-order listing (own
  properties first, then the parents in declared order) in which the first entry of
  every name is kept as it is and every later entry of that name is dropped.
\<close>

theorem first_occurrence_wins:
  assumes "distinct (map property.name (ownProps roleInfo roleName))"
  shows "fst (buildAllProps roleName roleInfo visited) =
           firstByName {} (fst (preorderProps roleName roleInfo visited))
         \<and> distinct (map property.name (fst (buildAllProps roleName roleInfo visited)))"
proof -
  have "firstByName {} (ownProps roleInfo roleName) = ownProps roleInfo roleName"
    using assms by (simp add: firstByName_distinct_id)
  then have "fst (buildAllProps roleName roleInfo visited) =
      firstByName {} (fst (preorderProps roleName roleInfo visited))"
    by (simp add: resolver_preorder(1)[of roleName roleInfo visited]
        preorderProps_unfold[of roleName roleInfo visited] firstByName_append)
  then show ?thesis by (simp add: distinct_firstByName)
qed

theorem first_occurrence_wins_witness:
  "distinct (map property.name (ownProps switchTable ''switch''))
   \<and> fst (buildAllProps ''switch'' switchTable {}) =
       [\<lparr>property.name = ''aria-checked'', required = True, deprecated = False, disallowed = False\<rparr>,
        \<lparr>property.name = ''aria-label'', required = False, deprecated = False, disallowed = False\<rparr>]
   \<and> fst (preorderProps ''switch'' switchTable {}) =
       [\<lparr>property.name = ''aria-checked'', required = True, deprecated = False, disallowed = False\<rparr>,
        \<lparr>property.name = ''aria-checked'', required = False, deprecated = False, disallowed = False\<rparr>,
        \<lparr>property.name = ''aria-label'', required = False, deprecated = False, disallowed = False\<rparr>]"
proof -
  have d: "distinct (map property.name (ownProps switchTable ''switch''))"
    by (simp add: ownProps_def switchTable_def)
  have p: "fst (preorderProps ''switch'' switchTable {}) =
       [\<lparr>property.name = ''aria-checked'', required = True, deprecated = False, disallowed = False\<rparr>,
        \<lparr>property.name = ''aria-checked'', required = False, deprecated = False, disallowed = False\<rparr>,
        \<lparr>property.name = ''aria-label'', required = False, deprecated = False, disallowed = False\<rparr>]"
    by (simp add: preorderProps.simps preorderParents.simps ownProps_def expandsTo_def switchTable_def)
  from first_occurrence_wins[OF d, of "{}"] d p show ?thesis by simp
qed

text \<open>
  Claim C3 as stated fails: the role's own list is copied as it is, so a name that
  occurs twice in it occurs twice in the result.
\<close>

theorem duplicate_local_names_counterexample:
  "\<not> distinct (map property.name (fst (buildAllProps ''tab'' duplicateLocalTable {})))"
  by (simp add: buildAllProps.simps inheritFromParents.simps duplicateLocalTable_def)

text \<open>
  Claim C1, amended. For a role of the table that has no precomputed \<^verbatim>\<open>allprops\<close> list,
  and each of its declared parents, every property name that \<^verbatim>\<open>buildAllProps\<close> returns
  for the parent is among the names it returns for the role, whether the parent graph
  has cycles or not; and the result for the role has no two entries of the same name
  when the role's own local list has none.
\<close>

theorem parent_props_inherited:
  assumes "map_of roleInfo roleName = Some role"
    and "allprops role = None"
    and "roleInfoEntry.parentRoles role = Some parents"
    and "parentName \<in> set parents"
  shows "propNames (buildAllPropsFresh parentName roleInfo) \<subseteq> propNames (buildAllPropsFresh roleName roleInfo)
         \<and> (distinct (map property.name (ownProps roleInfo roleName))
              \<longrightarrow> distinct (map property.name (buildAllPropsFresh roleName roleInfo)))"
proof (intro conjI impI)
  from assms have "parentName \<in> set (expandsTo roleInfo roleName)"
    by (simp add: expandsTo_def)
  then show "propNames (buildAllPropsFresh parentName roleInfo) \<subseteq> propNames (buildAllPropsFresh roleName roleInfo)"
    by (rule parent_names_subset)
next
  assume d: "distinct (map property.name (ownProps roleInfo roleName))"
  have "propNames (ownProps roleInfo roleName) \<inter>
        propNames (firstByName (propNames (ownProps roleInfo roleName)) xs) = {}" for xs
    by (auto simp: propNames_firstByName)
  with d show "distinct (map property.name (buildAllPropsFresh roleName roleInfo))"
    by (simp add: buildAllPropsFresh_def resolver_preorder(1)[of roleName roleInfo "{}"]
        distinct_firstByName propNames_def)
qed

theorem parent_props_inherited_witness:
  "propNames (buildAllPropsFresh ''b'' cyclicTable) \<subseteq> propNames (buildAllPropsFresh ''a'' cyclicTable)
   \<and> propNames (buildAllPropsFresh ''b'' cyclicTable) = {''aria-x'', ''aria-y''}
   \<and> distinct (map property.name (buildAllPropsFresh ''a'' cyclicTable))"
proof -
  have m: "map_of cyclicTable ''a'' = Some (the (map_of cyclicTable ''a''))"
    by (simp add: cyclicTable_def)
  have a: "allprops (the (map_of cyclicTable ''a'')) = None"
    by (simp add: cyclicTable_def)
  have p: "roleInfoEntry.parentRoles (the (map_of cyclicTable ''a'')) = Some [''b'', ''a'']"
    by (simp add: cyclicTable_def)
  have i: "''b'' \<in> set [''b'', ''a'']" by simp
  have d: "distinct (map property.name (ownProps cyclicTable ''a''))"
    by (simp add: ownProps_def cyclicTable_def)
  have v: "propNames (buildAllPropsFresh ''b'' cyclicTable) = {''aria-x'', ''aria-y''}"
    by (simp add: buildAllPropsFresh_def buildAllProps.simps inheritFromParents.simps cyclicTable_def propNames_def)
  from parent_props_inherited[OF m a p i] d v show ?thesis by simp
qed

text \<open>
  Claim C1 as stated fails twice. A role with a precomputed list gets that list and
  nothing from its parents: \<^verbatim>\<open>link\<close> has the parent \<^verbatim>\<open>command\<close>, the table has no cycle,
  and \<^verbatim>\<open>aria-label\<close> of \<^verbatim>\<open>command\<close> is missing from \<^verbatim>\<open>link\<close>. And a role whose local list
  repeats a name keeps both entries.
\<close>

theorem precomputed_allprops_counterexample:
  "map_of precomputedTable ''link'' \<noteq> None
   \<and> roleInfoEntry.parentRoles (the (map_of precomputedTable ''link'')) = Some [''command'']
   \<and> roleInfoEntry.parentRoles (the (map_of precomputedTable ''command'')) = None
   \<and> ''aria-label'' \<in> propNames (buildAllPropsFresh ''command'' precomputedTable)
   \<and> ''aria-label'' \<notin> propNames (buildAllPropsFresh ''link'' precomputedTable)
   \<and> roleInfoEntry.parentRoles (the (map_of repeatedLocalTable ''option'')) = Some [''input'']
   \<and> \<not> distinct (map property.name (buildAllPropsFresh ''option'' repeatedLocalTable))"
  by (simp add: buildAllPropsFresh_def buildAllProps.simps inheritFromParents.simps
      precomputedTable_def repeatedLocalTable_def propNames_def)

section \<open>Properties of the categorizer\<close>

lemma ruleCategory_names: "ruleCategory r n \<in> set categoryNames"
  by (simp add: ruleCategory_def categoryNames_def)

lemma categorizeRole_found:
  "map_of rs n = Some r \<Longrightarrow>
   categorizeRole (cats, rs) n =
     (pushCategory cats (ruleCategory r n) n,
      AList.update n (r\<lparr>category := Some (ruleCategory r n)\<rparr>) rs)"
  by (simp add: categorizeRole_def ruleCategory_def pushCategory_def setCategory_def)

lemma update_middle:
  "k \<notin> fst ` set pre \<Longrightarrow> AList.update k v (pre @ (k, r) # post) = pre @ (k, v) # post"
  by (induction pre) auto

lemma map_of_middle:
  "k \<notin> fst ` set pre \<Longrightarrow> map_of (pre @ (k, r) # post) k = Some r"
  by (induction pre) auto

lemma categorize_fold:
  "distinct (map fst (pre @ post)) \<Longrightarrow>
   foldl categorizeRole (cats, pre @ post) (map fst post) =
     (foldl pushEntry cats post, pre @ map withCategory post)"
proof (induction post arbitrary: cats pre)
  case Nil
  show ?case by simp
next
  case (Cons e post)
  obtain k r where e: "e = (k, r)" by (cases e)
  from Cons.prems have nk: "k \<notin> fst ` set pre" by (auto simp: e)
  have step: "categorizeRole (cats, pre @ (k, r) # post) k =
      (pushEntry cats (k, r), (pre @ [withCategory (k, r)]) @ post)"
    using categorizeRole_found[OF map_of_middle[OF nk, of r post], of cats] update_middle[OF nk, of _ r post]
    by (simp add: pushEntry_def withCategory_def)
  from Cons.prems have d: "distinct (map fst ((pre @ [withCategory (k, r)]) @ post))"
    by (simp add: e withCategory_def)
  show ?case
    using Cons.IH[OF d, of "pushEntry cats (k, r)"] by (simp add: e step)
qed

lemma categorizeRoles_char:
  "distinct (map fst rs) \<Longrightarrow>
   categorizeRoles rs = (foldl pushEntry emptyCategories rs, map withCategory rs)"
  using categorize_fold[of "[]" rs emptyCategories] by (simp add: categorizeRoles_def)



lemma categoryList_push:
  "c \<in> set categoryNames \<Longrightarrow>
   categoryList (pushCategory cats c n) c' =
     map_option (\<lambda>l. if c' = c then l @ [n] else l) (categoryList cats c')"
  by (auto simp: categoryNames_def pushCategory_def categoryList_def)

lemma categoryList_names: "c \<in> set categoryNames \<Longrightarrow> \<exists>l. categoryList cats c = Some l"
  by (simp add: categoryNames_def categoryList_def) (elim disjE, simp_all)

lemma inCategory_push:
  assumes "c \<in> set categoryNames"
  shows "inCategory (pushCategory cats c n) c' m = (inCategory cats c' m \<or> (c' = c \<and> m = n))"
proof (cases "categoryList cats c'")
  case None
  with categoryList_names[OF assms, of cats] have "c' \<noteq> c" by auto
  with None show ?thesis
    by (simp add: inCategory_def categoryList_push[OF assms])
next
  case (Some l)
  then show ?thesis
    by (auto simp: inCategory_def categoryList_push[OF assms])
qed

lemma inCategory_pushEntry:
  "inCategory (pushEntry cats e) c n = (inCategory cats c n \<or> (c = ruleCategory (snd e) (fst e) \<and> n = fst e))"
  unfolding pushEntry_def by (rule inCategory_push) (rule ruleCategory_names)

lemma inCategory_fold:
  "inCategory (foldl pushEntry cats post) c n =
     (inCategory cats c n \<or> (\<exists>r. (n, r) \<in> set post \<and> ruleCategory r n = c))"
proof (induction post arbitrary: cats)
  case Nil
  show ?case by simp
next
  case (Cons e post)
  obtain k r where e: "e = (k, r)" by (cases e)
  have "inCategory (foldl pushEntry cats (e # post)) c n =
      (inCategory (pushEntry cats e) c n \<or> (\<exists>r. (n, r) \<in> set post \<and> ruleCategory r n = c))"
    by (simp add: Cons.IH)
  also have "\<dots> = (inCategory cats c n \<or> (c = ruleCategory r k \<and> n = k)
      \<or> (\<exists>r. (n, r) \<in> set post \<and> ruleCategory r n = c))"
    by (simp add: inCategory_pushEntry e)
  also have "\<dots> = (inCategory cats c n \<or> (\<exists>r. (n, r) \<in> set (e # post) \<and> ruleCategory r n = c))"
    unfolding e by auto
  finally show ?case .
qed
lemma inCategory_empty: "inCategory emptyCategories c n = False"
  by (simp add: inCategory_def categoryList_def emptyCategories_def)

lemma count_push:
  "count_list (categoryEntries (pushCategory cats c n)) m =
     count_list (categoryEntries cats) m + (if m = n then 1 else 0)"
  by (simp add: categoryEntries_def pushCategory_def)

lemma count_fold:
  "count_list (categoryEntries (foldl pushEntry cats post)) m =
     count_list (categoryEntries cats) m + count_list (map fst post) m"
  by (induction post arbitrary: cats) (auto simp: pushEntry_def count_push)

lemma count_empty: "count_list (categoryEntries emptyCategories) m = 0"
  by (simp add: categoryEntries_def emptyCategories_def)

lemma map_of_withCategory:
  "map_of (map withCategory rs) n =
     map_option (\<lambda>r. r\<lparr>category := Some (ruleCategory r n)\<rparr>) (map_of rs n)"
  by (induction rs) (auto simp: withCategory_def)

lemma count_list_distinct: "distinct xs \<Longrightarrow> x \<in> set xs \<Longrightarrow> count_list xs x = 1"
  by (induction xs) auto

text \<open>
  Claim C6. A \<^verbatim>\<open>roles\<close> object has every key once. For each of its roles,
  \<^verbatim>\<open>categorizeRoles\<close> puts the name in the list of exactly one category, once: the
  category that the rules give in the order abstract (flag or list), landmark,
  liveRegion, window, composite, widget, and document otherwise; that category is one
  of the seven.
\<close>

theorem categorizeRoles_one_category:
  assumes "distinct (map fst rs)" and "map_of rs roleName = Some r"
  shows "(\<forall>c. inCategory (fst (categorizeRoles rs)) c roleName = (c = ruleCategory r roleName))
         \<and> ruleCategory r roleName \<in> set categoryNames
         \<and> count_list (categoryEntries (fst (categorizeRoles rs))) roleName = 1"
proof (intro conjI allI)
  fix c
  have cats: "fst (categorizeRoles rs) = foldl pushEntry emptyCategories rs"
    using assms(1) by (simp add: categorizeRoles_char)
  have "(\<exists>r'. (roleName, r') \<in> set rs \<and> ruleCategory r' roleName = c) = (c = ruleCategory r roleName)"
  proof
    assume "\<exists>r'. (roleName, r') \<in> set rs \<and> ruleCategory r' roleName = c"
    then obtain r' where r': "(roleName, r') \<in> set rs" "ruleCategory r' roleName = c" by blast
    from r'(1) assms(1) have "map_of rs roleName = Some r'" by simp
    with assms(2) have "r' = r" by simp
    with r'(2) show "c = ruleCategory r roleName" by simp
  next
    assume "c = ruleCategory r roleName"
    moreover from assms(2) have "(roleName, r) \<in> set rs" by (rule map_of_SomeD)
    ultimately show "\<exists>r'. (roleName, r') \<in> set rs \<and> ruleCategory r' roleName = c" by blast
  qed
  then show "inCategory (fst (categorizeRoles rs)) c roleName = (c = ruleCategory r roleName)"
    unfolding cats inCategory_fold inCategory_empty by simp
next
  show "ruleCategory r roleName \<in> set categoryNames" by (rule ruleCategory_names)
next
  have cats: "fst (categorizeRoles rs) = foldl pushEntry emptyCategories rs"
    using assms(1) by (simp add: categorizeRoles_char)
  from assms(2) have "(roleName, r) \<in> set rs" by (rule map_of_SomeD)
  then have "roleName \<in> set (map fst rs)" by force
  with assms(1) have "count_list (map fst rs) roleName = 1"
    by (rule count_list_distinct)
  then show "count_list (categoryEntries (fst (categorizeRoles rs))) roleName = 1"
    unfolding cats count_fold count_empty by simp
qed

theorem categorizeRoles_one_category_witness:
  "distinct (map fst sampleRoles)
   \<and> inCategory (fst (categorizeRoles sampleRoles)) ''abstract'' ''main''
   \<and> \<not> inCategory (fst (categorizeRoles sampleRoles)) ''landmark'' ''main''
   \<and> count_list (categoryEntries (fst (categorizeRoles sampleRoles))) ''main'' = 1
   \<and> fst (categorizeRoles sampleRoles) =
       \<lparr>categories.abstract = [''widget'', ''main''], widget = [''button''], document = [''mark''],
        landmark = [], liveRegion = [''alert''], window = [], composite = []\<rparr>"
proof -
  have d: "distinct (map fst sampleRoles)" by (simp add: sampleRoles_def)
  have m: "map_of sampleRoles ''main'' = Some ((newRole ''main'' ''The main content.'')\<lparr>isAbstract := True\<rparr>)"
    by (simp add: sampleRoles_def)
  have c: "ruleCategory ((newRole ''main'' ''The main content.'')\<lparr>isAbstract := True\<rparr>) ''main'' = ''abstract''"
    by (simp add: ruleCategory_def)
  have v: "fst (categorizeRoles sampleRoles) =
       \<lparr>categories.abstract = [''widget'', ''main''], widget = [''button''], document = [''mark''],
        landmark = [], liveRegion = [''alert''], window = [], composite = []\<rparr>"
    by (simp add: categorizeRoles_def sampleRoles_def categorizeRole_def setCategory_def emptyCategories_def
        abstractRoleNames_def landmarkRoleNames_def liveRegionRoleNames_def windowRoleNames_def
        compositeRoleNames_def widgetRoleNames_def newRole_def)
  from categorizeRoles_one_category[OF d m] d c v show ?thesis by simp
qed

text \<open>
  Claim C10. After categorization the index and the roles agree: a name in the list of
  category \<open>c\<close> is a role whose \<^verbatim>\<open>category\<close> field is \<open>c\<close>; every role has a
  \<^verbatim>\<open>category\<close> value, and its name is in the list of that category; and the keys of
  \<^verbatim>\<open>roles\<close> are unchanged.
\<close>

theorem category_index_consistent:
  assumes "distinct (map fst rs)"
  shows "(\<forall>c l roleName. categoryList (fst (categorizeRoles rs)) c = Some l \<and> roleName \<in> set l \<longrightarrow>
            (\<exists>r. map_of (snd (categorizeRoles rs)) roleName = Some r \<and> category r = Some c))
         \<and> (\<forall>roleName r. map_of (snd (categorizeRoles rs)) roleName = Some r \<longrightarrow>
            (\<exists>c. category r = Some c \<and> inCategory (fst (categorizeRoles rs)) c roleName))
         \<and> map fst (snd (categorizeRoles rs)) = map fst rs"
proof (intro conjI allI impI)
  fix c l roleName
  assume a: "categoryList (fst (categorizeRoles rs)) c = Some l \<and> roleName \<in> set l"
  then have "inCategory (fst (categorizeRoles rs)) c roleName" by (simp add: inCategory_def)
  with assms obtain r where r: "(roleName, r) \<in> set rs" "ruleCategory r roleName = c"
    by (auto simp: categorizeRoles_char inCategory_fold inCategory_empty)
  with assms have "map_of rs roleName = Some r" by simp
  with assms r(2) show "\<exists>r. map_of (snd (categorizeRoles rs)) roleName = Some r \<and> category r = Some c"
    by (simp add: categorizeRoles_char map_of_withCategory)
next
  fix roleName r
  assume "map_of (snd (categorizeRoles rs)) roleName = Some r"
  with assms obtain r0 where r0: "map_of rs roleName = Some r0"
      "r = r0\<lparr>category := Some (ruleCategory r0 roleName)\<rparr>"
    by (auto simp: categorizeRoles_char map_of_withCategory)
  from r0(1) have "(roleName, r0) \<in> set rs" by (rule map_of_SomeD)
  then have "inCategory (fst (categorizeRoles rs)) (ruleCategory r0 roleName) roleName"
    using assms by (auto simp: categorizeRoles_char inCategory_fold)
  with r0(2) show "\<exists>c. category r = Some c \<and> inCategory (fst (categorizeRoles rs)) c roleName"
    by simp
next
  show "map fst (snd (categorizeRoles rs)) = map fst rs"
    using assms by (simp add: categorizeRoles_char withCategory_def comp_def)
qed

theorem category_index_consistent_witness:
  "distinct (map fst sampleRoles)
   \<and> categoryList (fst (categorizeRoles sampleRoles)) ''liveRegion'' = Some [''alert'']
   \<and> ''alert'' \<in> set [''alert'']
   \<and> (\<exists>r. map_of (snd (categorizeRoles sampleRoles)) ''alert'' = Some r \<and> category r = Some ''liveRegion'')
   \<and> inCategory (fst (categorizeRoles sampleRoles)) ''liveRegion'' ''alert''
   \<and> map fst (snd (categorizeRoles sampleRoles)) = [''button'', ''alert'', ''widget'', ''main'', ''mark'']"
proof -
  have d: "distinct (map fst sampleRoles)" by (simp add: sampleRoles_def)
  have v: "categoryList (fst (categorizeRoles sampleRoles)) ''liveRegion'' = Some [''alert'']"
    by (simp add: categorizeRoles_def sampleRoles_def categorizeRole_def setCategory_def emptyCategories_def
        abstractRoleNames_def landmarkRoleNames_def liveRegionRoleNames_def windowRoleNames_def
        compositeRoleNames_def widgetRoleNames_def newRole_def categoryList_def)
  from category_index_consistent[OF d] have
    "categoryList (fst (categorizeRoles sampleRoles)) ''liveRegion'' = Some [''alert''] \<and> ''alert'' \<in> set [''alert''] \<longrightarrow>
       (\<exists>r. map_of (snd (categorizeRoles sampleRoles)) ''alert'' = Some r \<and> category r = Some ''liveRegion'')"
    by blast
  with v obtain r where r: "map_of (snd (categorizeRoles sampleRoles)) ''alert'' = Some r"
    "category r = Some ''liveRegion''" by auto
  from category_index_consistent[OF d] r(1) obtain c where
    c: "category r = Some c" "inCategory (fst (categorizeRoles sampleRoles)) c ''alert''" by blast
  from c(1) r(2) have "c = ''liveRegion''" by simp
  with c(2) have i: "inCategory (fst (categorizeRoles sampleRoles)) ''liveRegion'' ''alert''" by simp
  from category_index_consistent[OF d]
  have k: "map fst (snd (categorizeRoles sampleRoles)) = [''button'', ''alert'', ''widget'', ''main'', ''mark'']"
    by (simp add: sampleRoles_def)
  from d v r i k show ?thesis by auto
qed

section \<open>Properties of the extractor and of the assembled data\<close>

lemma roleRow_isAbstract:
  "isAbstract (roleRow r row) = (if setsIsAbstract row then cellIsTrue row else isAbstract r)"
  by (simp add: roleRow_def Let_def setsIsAbstract_def earlierRoleRule_def cellIsTrue_def
      rowHeader_def rowValue_def)

lemma roleRow_accessibleNameRequired:
  "accessibleNameRequired (roleRow r row) =
     (if setsAccessibleNameRequired row then cellIsTrue row else accessibleNameRequired r)"
  by (simp add: roleRow_def Let_def setsAccessibleNameRequired_def earlierRoleRule_def cellIsTrue_def
      rowHeader_def rowValue_def)

lemma roleRow_childrenPresentational:
  "childrenPresentational (roleRow r row) =
     (if setsChildrenPresentational row then cellIsTrue row else childrenPresentational r)"
  by (simp add: roleRow_def Let_def setsChildrenPresentational_def earlierRoleRule_def cellIsTrue_def
      rowHeader_def rowValue_def)

lemma foldl_last_assignment:
  assumes "\<And>r row. g (f r row) = (if P row then v row else g r)"
  shows "g (foldl f r rows) = (case lastRow P rows of None \<Rightarrow> g r | Some row \<Rightarrow> v row)"
  by (induction rows rule: rev_induct) (simp_all add: lastRow_def assms)

lemma attributeRow_isGlobal:
  "isGlobal (attributeRow a row) = (signalsAllElements row \<or> isGlobal a)"
  by (simp add: attributeRow_def Let_def signalsAllElements_def isApplicabilityRow_def
      rowHeader_def rowValue_def)

lemma foldl_attributeRow_isGlobal:
  "isGlobal (foldl attributeRow a rows) = (isGlobal a \<or> list_ex signalsAllElements rows)"
  by (induction rows rule: rev_induct) (auto simp: attributeRow_isGlobal)

lemma map_of_update: "map_of (AList.update k v al) n = (if n = k then Some v else map_of al n)"
  by (simp add: update_conv')

lemma blocks_lookup:
  assumes step: "\<And>acc d. step acc d =
      (case block_id d of
         None \<Rightarrow> acc
       | Some i \<Rightarrow> if i = [] then acc else AList.update i (build i d) acc)"
  shows "map_of (foldl step acc divs) n =
      (case lastBlock n divs of Some d \<Rightarrow> Some (build n d) | None \<Rightarrow> map_of acc n)"
proof (induction divs rule: rev_induct)
  case Nil
  show ?case by (simp add: lastBlock_def)
next
  case (snoc d divs)
  show ?case
  proof (cases "block_id d")
    case None
    with snoc show ?thesis by (simp add: step lastBlock_def)
  next
    case (Some i)
    with snoc show ?thesis
      by (auto simp: step lastBlock_def map_of_update)
  qed
qed

lemma blocks_distinct:
  assumes step: "\<And>acc d. step acc d =
      (case block_id d of
         None \<Rightarrow> acc
       | Some i \<Rightarrow> if i = [] then acc else AList.update i (build i d) acc)"
  shows "distinct (map fst acc) \<Longrightarrow> distinct (map fst (foldl step acc divs))"
  by (induction divs rule: rev_induct) (auto simp: step distinct_update split: option.splits)

lemma parseRoles_lookup:
  "map_of (parseRoles doc) n = map_option (roleOfBlock n) (lastBlock n (role_divs doc))"
  unfolding parseRoles_def
  by (subst blocks_lookup[where build = roleOfBlock])
     (auto simp: parseRoleDiv_def roleOfBlock_def split: option.splits)

lemma parseRoles_distinct: "distinct (map fst (parseRoles doc))"
  unfolding parseRoles_def
  by (rule blocks_distinct[where build = roleOfBlock])
     (auto simp: parseRoleDiv_def roleOfBlock_def split: option.splits)

lemma parseStatesAndProperties_lookup:
  "map_of (parseStatesAndProperties doc) n =
     map_option (attributeOfBlock n) (lastBlock n (attr_divs doc))"
  unfolding parseStatesAndProperties_def
  by (subst blocks_lookup[where build = attributeOfBlock])
     (auto simp: parseAttributeDiv_def attributeOfBlock_def split: option.splits)

lemma isGlobal_attributeOfBlock:
  "isGlobal (attributeOfBlock n d) = list_ex signalsAllElements (def_rows d)"
  by (simp add: attributeOfBlock_def foldl_attributeRow_isGlobal newAttribute_def)

lemma globalNames_iff:
  "(n \<in> set (globalNames sp)) = (\<exists>a. map_of sp n = Some a \<and> isGlobal a)"
proof -
  have "map_of sp n = Some a \<Longrightarrow> n \<in> fst ` set sp" for a
    by (auto dest: map_of_SomeD intro: rev_image_eqI)
  then show ?thesis
    by (auto simp: globalNames_def split: option.splits)
qed

lemma main_written:
  assumes "ariaHtml src = Some doc"
  shows "\<exists>d. written (main src) = Some d
    \<and> roles d = snd (categorizeRoles (mergeRoleInfo (fst (parseRoleInfoJS (roleInfoJs src))) (parseRoles doc)))
    \<and> roleCategories d = fst (categorizeRoles (mergeRoleInfo (fst (parseRoleInfoJS (roleInfoJs src))) (parseRoles doc)))
    \<and> states d = statesOf (parseStatesAndProperties doc)
    \<and> properties d = propertiesOf (parseStatesAndProperties doc)
    \<and> globalStatesAndProperties d = globalNames (parseStatesAndProperties doc)
    \<and> htmlMappings d = fst (parseHtmlAam (htmlAamHtml src))
    \<and> dpub (extensions d) = fst (parseDpubAria (dpubHtml src))
    \<and> graphics (extensions d) = fst (parseGraphicsAria (graphicsHtml src))
    \<and> accname d = fst (parseAccName (accnameHtml src))
    \<and> metadata d =
        \<lparr>metadata.version = ''1.3'', generatedAt = clock src,
         sourceUrl = ''https://github.com/w3c/aria'',
         metadata.specUrl = ''https://w3c.github.io/aria/''\<rparr>
    \<and> serverInfo d =
        \<lparr>serverInfo.name = ''aria-mcp'', serverInfo.version = ''1.0.0'',
         serverInfo.description =
           ''ARIA specification MCP server for accessibility professionals and AI agents''\<rparr>"
  using assms by (simp add: main_def Let_def split: prod.splits)


text \<open>
  Claim C2, amended. An attribute parsed from the primary document is in
  \<^verbatim>\<open>globalStatesAndProperties\<close> exactly when a row of its characteristics table is an
  applicability row whose cell text, cleaned of repeated and surrounding whitespace
  and put in lower case, contains \<^verbatim>\<open>all elements\<close>. A cell that reads
  \<^verbatim>\<open>All elements of the base markup\<close>, also with a no-break space between the words,
  puts the attribute in the list; one that reads \<^verbatim>\<open>Any element\<close> or \<^verbatim>\<open>button, link\<close> does
  not.
\<close>

theorem global_index_iff_all_elements:
  assumes "ariaHtml src = Some doc"
  shows "\<exists>d. written (main src) = Some d
    \<and> (\<forall>n. (n \<in> set (globalStatesAndProperties d)) =
          (case lastBlock n (attr_divs doc) of
             None \<Rightarrow> False
           | Some attrDiv \<Rightarrow> list_ex signalsAllElements (def_rows attrDiv)))"
proof -
  from main_written[OF assms] obtain d where d: "written (main src) = Some d"
    "globalStatesAndProperties d = globalNames (parseStatesAndProperties doc)" by blast
  have "(n \<in> set (globalNames (parseStatesAndProperties doc))) =
          (case lastBlock n (attr_divs doc) of
             None \<Rightarrow> False
           | Some attrDiv \<Rightarrow> list_ex signalsAllElements (def_rows attrDiv))" for n
    by (cases "lastBlock n (attr_divs doc)")
       (simp_all add: globalNames_iff parseStatesAndProperties_lookup isGlobal_attributeOfBlock)
  with d show ?thesis by simp
qed

lemmas text_simps = cleanText_def trim_def replaceNewlines_def isWhitespace_def toLowerCase_def
  toLowerChar_def upperCaseChars_def lowerCaseChars_def filterBoolean_def elementTexts_def

text \<open>The texts of the example documents, cleaned and in lower case.\<close>

lemma sample_cleaned:
  "cleanText ''Used in Roles:'' = ''Used in Roles:''"
  "cleanText ''Is Abstract:'' = ''Is Abstract:''"
  "cleanText (CHR ''I'' # CHR ''s'' # CHR 0xA0 # ''Abstract:'') = ''Is Abstract:''"
  "cleanText ''Superclass Role:'' = ''Superclass Role:''"
  "cleanText ''Accessible Name Required:'' = ''Accessible Name Required:''"
  "cleanText ''Children Presentational:'' = ''Children Presentational:''"
  "cleanText ''All elements of the base markup'' = ''All elements of the base markup''"
  "cleanText (CHR ''A'' # CHR ''l'' # CHR ''l'' # CHR 0xA0 # ''elements of the base markup'')
     = ''All elements of the base markup''"
  "cleanText ''Any element'' = ''Any element''"
  "cleanText ''button, link'' = ''button, link''"
  "cleanText ''True'' = ''True''"
  "cleanText ''true'' = ''true''"
  "cleanText (CHR 0xA0 # ''true'') = ''true''"
  "cleanText '' TRUE '' = ''TRUE''"
  "cleanText ''True (see note)'' = ''True (see note)''"
  "cleanText ''roletype'' = ''roletype''"
  "cleanText ''button'' = ''button''"
  "cleanText ''link'' = ''link''"
  "cleanText ''a'' = ''a''"
  "cleanText ''Attribute mappings'' = ''Attribute mappings''"
  "cleanText ''HTML element role mappings'' = ''HTML element role mappings''"
  "cleanText ''An illustrative example.'' = ''An illustrative example.''"
  "cleanText ''A graphics example.'' = ''A graphics example.''"
  "cleanText ''A symbol.'' = ''A symbol.''"
  "cleanText '' How names are computed. '' = ''How names are computed.''"
  "cleanText [] = []"
  by (simp_all add: text_simps)

lemma sample_lowered:
  "toLowerCase ''Used in Roles:'' = ''used in roles:''"
  "toLowerCase ''Is Abstract:'' = ''is abstract:''"
  "toLowerCase ''Superclass Role:'' = ''superclass role:''"
  "toLowerCase ''Accessible Name Required:'' = ''accessible name required:''"
  "toLowerCase ''Children Presentational:'' = ''children presentational:''"
  "toLowerCase ''All elements of the base markup'' = ''all elements of the base markup''"
  "toLowerCase ''Any element'' = ''any element''"
  "toLowerCase ''button, link'' = ''button, link''"
  "toLowerCase ''True'' = ''true''"
  "toLowerCase ''true'' = ''true''"
  "toLowerCase ''TRUE'' = ''true''"
  "toLowerCase ''True (see note)'' = ''true (see note)''"
  "toLowerCase ''roletype'' = ''roletype''"
  "toLowerCase ''Attribute mappings'' = ''attribute mappings''"
  "toLowerCase ''HTML element role mappings'' = ''html element role mappings''"
  "toLowerCase [] = []"
  by (simp_all add: text_simps)

lemmas sample_texts = sample_cleaned sample_lowered filterBoolean_def elementTexts_def

lemma applicability_rows:
  "signalsAllElements (plainRow ''Used in Roles:'' ''All elements of the base markup'' [])"
  "signalsAllElements (plainRow ''Used in Roles:''
     (CHR ''A'' # CHR ''l'' # CHR ''l'' # CHR 0xA0 # ''elements of the base markup'') [])"
  "\<not> signalsAllElements (plainRow ''Used in Roles:'' ''Any element'' [])"
  "\<not> signalsAllElements (plainRow ''Used in Roles:'' ''button, link'' [''button'', ''link''])"
  by (simp_all add: signalsAllElements_def isApplicabilityRow_def rowHeader_def rowValue_def
      plainRow_def sample_texts)

lemma attributeDoc_global_names:
  "globalNames (parseStatesAndProperties attributeDoc) = [''aria-atomic'', ''aria-busy'']"
  by (simp add: globalNames_def parseStatesAndProperties_def parseAttributeDiv_def attributeDoc_def
      attributeRow_def newAttribute_def plainRow_def Let_def sample_texts)

text \<open>
  Claim C2 as stated fails: the attribute \<^verbatim>\<open>aria-label\<close> is parsed, its applicability
  cell reads \<^verbatim>\<open>Any element\<close>, and it is not in the list.
\<close>

theorem any_element_not_global_counterexample:
  "map (\<lambda>row. (th_text row, td_text row))
       (def_rows (the (lastBlock ''aria-label'' (attr_divs attributeDoc))))
     = [(''Used in Roles:'', ''Any element'')]
   \<and> (\<exists>d. written (main (onlyPrimary attributeDoc)) = Some d
          \<and> map_of (properties d) ''aria-label'' \<noteq> None
          \<and> ''aria-label'' \<notin> set (globalStatesAndProperties d)
          \<and> globalStatesAndProperties d = [''aria-atomic'', ''aria-busy''])"
proof -
  have p: "ariaHtml (onlyPrimary attributeDoc) = Some attributeDoc" by (simp add: onlyPrimary_def)
  from main_written[OF p] obtain d where d: "written (main (onlyPrimary attributeDoc)) = Some d"
    "properties d = propertiesOf (parseStatesAndProperties attributeDoc)"
    "globalStatesAndProperties d = globalNames (parseStatesAndProperties attributeDoc)" by blast
  have a: "map_of (propertiesOf (parseStatesAndProperties attributeDoc)) ''aria-label'' \<noteq> None"
    by (simp add: propertiesOf_def parseStatesAndProperties_def parseAttributeDiv_def attributeDoc_def
      attributeRow_def newAttribute_def plainRow_def Let_def sample_texts)
  have r: "map (\<lambda>row. (th_text row, td_text row))
       (def_rows (the (lastBlock ''aria-label'' (attr_divs attributeDoc))))
     = [(''Used in Roles:'', ''Any element'')]"
    by (simp add: lastBlock_def attributeDoc_def plainRow_def)
  from d a r attributeDoc_global_names show ?thesis by simp
qed

theorem global_index_iff_all_elements_witness:
  "ariaHtml (onlyPrimary attributeDoc) = Some attributeDoc
   \<and> (\<exists>d. written (main (onlyPrimary attributeDoc)) = Some d
          \<and> ''aria-atomic'' \<in> set (globalStatesAndProperties d)
          \<and> ''aria-busy'' \<in> set (globalStatesAndProperties d)
          \<and> ''aria-label'' \<notin> set (globalStatesAndProperties d)
          \<and> ''aria-pressed'' \<notin> set (globalStatesAndProperties d))"
proof -
  have p: "ariaHtml (onlyPrimary attributeDoc) = Some attributeDoc" by (simp add: onlyPrimary_def)
  from global_index_iff_all_elements[OF p] obtain d where
    d: "written (main (onlyPrimary attributeDoc)) = Some d"
    and g: "\<And>n. (n \<in> set (globalStatesAndProperties d)) =
          (case lastBlock n (attr_divs attributeDoc) of
             None \<Rightarrow> False
           | Some attrDiv \<Rightarrow> list_ex signalsAllElements (def_rows attrDiv))" by blast
  have "''aria-atomic'' \<in> set (globalStatesAndProperties d)"
    unfolding g by (simp add: lastBlock_def attributeDoc_def applicability_rows)
  moreover have "''aria-busy'' \<in> set (globalStatesAndProperties d)"
    unfolding g by (simp add: lastBlock_def attributeDoc_def applicability_rows)
  moreover have "''aria-label'' \<notin> set (globalStatesAndProperties d)"
    unfolding g by (simp add: lastBlock_def attributeDoc_def applicability_rows)
  moreover have "''aria-pressed'' \<notin> set (globalStatesAndProperties d)"
    unfolding g by (simp add: lastBlock_def attributeDoc_def applicability_rows)
  ultimately show ?thesis using p d by simp
qed

text \<open>
  Claim C9, amended. For a role parsed from the primary document, each of
  \<^verbatim>\<open>isAbstract\<close>, \<^verbatim>\<open>accessibleNameRequired\<close> and \<^verbatim>\<open>childrenPresentational\<close> is true
  exactly when the last row that sets the field has a cell whose text, cleaned of
  surrounding and repeated whitespace and compared without regard to case, is equal
  to \<^verbatim>\<open>true\<close>; with any other cell, also one that holds the token among other words, or
  with no such row, it is false.
\<close>

theorem boolean_fields_true_token:
  assumes "map_of (parseRoles doc) n = Some r"
  shows "\<exists>roleDiv. lastBlock n (role_divs doc) = Some roleDiv
    \<and> isAbstract r =
        (case lastRow setsIsAbstract (def_rows roleDiv) of
           None \<Rightarrow> False | Some row \<Rightarrow> cellIsTrue row)
    \<and> accessibleNameRequired r =
        (case lastRow setsAccessibleNameRequired (def_rows roleDiv) of
           None \<Rightarrow> False | Some row \<Rightarrow> cellIsTrue row)
    \<and> childrenPresentational r =
        (case lastRow setsChildrenPresentational (def_rows roleDiv) of
           None \<Rightarrow> False | Some row \<Rightarrow> cellIsTrue row)"
proof -
  from assms obtain roleDiv where b: "lastBlock n (role_divs doc) = Some roleDiv"
    and r: "r = roleOfBlock n roleDiv"
    by (auto simp: parseRoles_lookup)
  have "isAbstract r =
        (case lastRow setsIsAbstract (def_rows roleDiv) of
           None \<Rightarrow> False | Some row \<Rightarrow> cellIsTrue row)"
    unfolding r roleOfBlock_def
    by (subst foldl_last_assignment[where g = isAbstract and P = setsIsAbstract and v = cellIsTrue])
       (simp_all add: roleRow_isAbstract newRole_def split: option.splits)
  moreover have "accessibleNameRequired r =
        (case lastRow setsAccessibleNameRequired (def_rows roleDiv) of
           None \<Rightarrow> False | Some row \<Rightarrow> cellIsTrue row)"
    unfolding r roleOfBlock_def
    by (subst foldl_last_assignment[where g = accessibleNameRequired
          and P = setsAccessibleNameRequired and v = cellIsTrue])
       (simp_all add: roleRow_accessibleNameRequired newRole_def split: option.splits)
  moreover have "childrenPresentational r =
        (case lastRow setsChildrenPresentational (def_rows roleDiv) of
           None \<Rightarrow> False | Some row \<Rightarrow> cellIsTrue row)"
    unfolding r roleOfBlock_def
    by (subst foldl_last_assignment[where g = childrenPresentational
          and P = setsChildrenPresentational and v = cellIsTrue])
       (simp_all add: roleRow_childrenPresentational newRole_def split: option.splits)
  ultimately show ?thesis using b by simp
qed

lemmas row_simps = lastRow_def setsIsAbstract_def setsAccessibleNameRequired_def
  setsChildrenPresentational_def earlierRoleRule_def cellIsTrue_def rowHeader_def rowValue_def
  plainRow_def

theorem boolean_fields_true_token_witness:
  "(\<exists>r. map_of (parseRoles booleanDoc) ''widget'' = Some r
        \<and> isAbstract r \<and> \<not> accessibleNameRequired r \<and> \<not> childrenPresentational r)
   \<and> (\<exists>r. map_of (parseRoles booleanDoc) ''button'' = Some r
        \<and> \<not> isAbstract r \<and> accessibleNameRequired r \<and> \<not> childrenPresentational r)
   \<and> (\<exists>r. map_of (parseRoles booleanDoc) ''link'' = Some r
        \<and> \<not> isAbstract r \<and> \<not> accessibleNameRequired r \<and> \<not> childrenPresentational r)
   \<and> (\<exists>r. map_of (parseRoles tokenDoc) ''checkbox'' = Some r \<and> isAbstract r)"
proof -
  have w: "map_of (parseRoles booleanDoc) ''widget'' = Some (the (map_of (parseRoles booleanDoc) ''widget''))"
    by (simp add: parseRoles_lookup lastBlock_def booleanDoc_def)
  have b: "map_of (parseRoles booleanDoc) ''button'' = Some (the (map_of (parseRoles booleanDoc) ''button''))"
    by (simp add: parseRoles_lookup lastBlock_def booleanDoc_def)
  have l: "map_of (parseRoles booleanDoc) ''link'' = Some (the (map_of (parseRoles booleanDoc) ''link''))"
    by (simp add: parseRoles_lookup lastBlock_def booleanDoc_def)
  have c: "map_of (parseRoles tokenDoc) ''checkbox'' = Some (the (map_of (parseRoles tokenDoc) ''checkbox''))"
    by (simp add: parseRoles_lookup lastBlock_def tokenDoc_def)
  have lw: "lastBlock ''widget'' (role_divs booleanDoc) = Some (role_divs booleanDoc ! 0)"
    by (simp add: lastBlock_def booleanDoc_def)
  have lb: "lastBlock ''button'' (role_divs booleanDoc) = Some (role_divs booleanDoc ! 1)"
    by (simp add: lastBlock_def booleanDoc_def)
  have ll: "lastBlock ''link'' (role_divs booleanDoc) = Some (role_divs booleanDoc ! 2)"
    by (simp add: lastBlock_def booleanDoc_def)
  have lc: "lastBlock ''checkbox'' (role_divs tokenDoc) = Some (role_divs tokenDoc ! 1)"
    by (simp add: lastBlock_def tokenDoc_def)
  have rw: "def_rows (role_divs booleanDoc ! 0) = [plainRow ''Is Abstract:'' ''True'' [],
                      plainRow ''Superclass Role:'' ''roletype'' [''roletype'']]"
    by (simp add: booleanDoc_def)
  have rb: "def_rows (role_divs booleanDoc ! 1) = [plainRow ''Accessible Name Required:'' '' TRUE '' [],
                      plainRow ''Children Presentational:'' ''True (see note)'' []]"
    by (simp add: booleanDoc_def)
  have rl: "def_rows (role_divs booleanDoc ! 2) = []"
    by (simp add: booleanDoc_def)
  have rc: "def_rows (role_divs tokenDoc ! 1) =
      [plainRow (CHR ''I'' # CHR ''s'' # CHR 0xA0 # ''Abstract:'') (CHR 0xA0 # ''true'') []]"
    by (simp add: tokenDoc_def)
  from boolean_fields_true_token[OF w] lw rw
  have 1: "isAbstract (the (map_of (parseRoles booleanDoc) ''widget''))
      \<and> \<not> accessibleNameRequired (the (map_of (parseRoles booleanDoc) ''widget''))
      \<and> \<not> childrenPresentational (the (map_of (parseRoles booleanDoc) ''widget''))"
    by (simp add: row_simps sample_texts)
  from boolean_fields_true_token[OF b] lb rb
  have 2: "\<not> isAbstract (the (map_of (parseRoles booleanDoc) ''button''))
      \<and> accessibleNameRequired (the (map_of (parseRoles booleanDoc) ''button''))
      \<and> \<not> childrenPresentational (the (map_of (parseRoles booleanDoc) ''button''))"
    by (simp add: row_simps sample_texts)
  from boolean_fields_true_token[OF l] ll rl
  have 3: "\<not> isAbstract (the (map_of (parseRoles booleanDoc) ''link''))
      \<and> \<not> accessibleNameRequired (the (map_of (parseRoles booleanDoc) ''link''))
      \<and> \<not> childrenPresentational (the (map_of (parseRoles booleanDoc) ''link''))"
    by (simp add: row_simps)
  from boolean_fields_true_token[OF c] lc rc
  have 4: "isAbstract (the (map_of (parseRoles tokenDoc) ''checkbox''))"
    by (simp add: row_simps sample_texts)
  from w b l c 1 2 3 4 show ?thesis by metis
qed

text \<open>
  Claim C9 as stated fails. The cell \<^verbatim>\<open>True (see note)\<close> of the row that sets
  \<^verbatim>\<open>childrenPresentational\<close> of \<^verbatim>\<open>button\<close> holds the token, and the field is false; and
  the first \<^verbatim>\<open>Is Abstract\<close> row of \<^verbatim>\<open>range\<close> has the cell \<^verbatim>\<open>true\<close>, and the field is false
  because a later row with an empty cell sets it again.
\<close>

theorem contained_token_counterexample:
  "def_rows (role_divs booleanDoc ! 1) =
     [plainRow ''Accessible Name Required:'' '' TRUE '' [],
      plainRow ''Children Presentational:'' ''True (see note)'' []]
   \<and> setsChildrenPresentational (plainRow ''Children Presentational:'' ''True (see note)'' [])
   \<and> includes_str (toLowerCase ''True (see note)'') ''true''
   \<and> (\<exists>r. map_of (parseRoles booleanDoc) ''button'' = Some r \<and> \<not> childrenPresentational r)
   \<and> def_rows (role_divs tokenDoc ! 0) =
     [plainRow ''Is Abstract:'' ''true'' [], plainRow ''Is Abstract:'' [] []]
   \<and> setsIsAbstract (plainRow ''Is Abstract:'' ''true'' [])
   \<and> cellIsTrue (plainRow ''Is Abstract:'' ''true'' [])
   \<and> (\<exists>r. map_of (parseRoles tokenDoc) ''range'' = Some r \<and> \<not> isAbstract r)"
proof -
  have rb: "def_rows (role_divs booleanDoc ! 1) =
     [plainRow ''Accessible Name Required:'' '' TRUE '' [],
      plainRow ''Children Presentational:'' ''True (see note)'' []]"
    by (simp add: booleanDoc_def)
  have rr: "def_rows (role_divs tokenDoc ! 0) =
     [plainRow ''Is Abstract:'' ''true'' [], plainRow ''Is Abstract:'' [] []]"
    by (simp add: tokenDoc_def)
  have s1: "setsChildrenPresentational (plainRow ''Children Presentational:'' ''True (see note)'' [])"
    and s2: "setsIsAbstract (plainRow ''Is Abstract:'' ''true'' [])"
    and s3: "cellIsTrue (plainRow ''Is Abstract:'' ''true'' [])"
    by (simp_all add: row_simps sample_texts)
  have i: "includes_str (toLowerCase ''True (see note)'') ''true''"
    by (simp add: sample_texts)
  have b: "map_of (parseRoles booleanDoc) ''button'' = Some (roleOfBlock ''button'' (role_divs booleanDoc ! 1))"
    by (simp add: parseRoles_lookup lastBlock_def booleanDoc_def)
  have nb: "\<not> childrenPresentational (roleOfBlock ''button'' (role_divs booleanDoc ! 1))"
    unfolding roleOfBlock_def rb
    by (simp add: roleRow_def newRole_def plainRow_def Let_def sample_texts)
  have r: "map_of (parseRoles tokenDoc) ''range'' = Some (roleOfBlock ''range'' (role_divs tokenDoc ! 0))"
    by (simp add: parseRoles_lookup lastBlock_def tokenDoc_def)
  have nr: "\<not> isAbstract (roleOfBlock ''range'' (role_divs tokenDoc ! 0))"
    unfolding roleOfBlock_def rr
    by (simp add: roleRow_def newRole_def plainRow_def Let_def sample_texts)
  from rb rr s1 s2 s3 i b nb r nr show ?thesis by simp
qed


section \<open>Properties of the pipeline\<close>

lemma roleRow_resolver_fields:
  "allProps (roleRow r row) = allProps r"
  "localProps (roleRow r row) = localProps r"
  "role.parentRoles (roleRow r row) = role.parentRoles r"
  "category (roleRow r row) = category r"
  by (simp_all add: roleRow_def Let_def)

lemma roleOfBlock_resolver_fields:
  "allProps (roleOfBlock n d) = None"
  "localProps (roleOfBlock n d) = None"
  "role.parentRoles (roleOfBlock n d) = None"
  "category (roleOfBlock n d) = None"
proof -
  have "allProps (foldl roleRow r rows) = allProps r
      \<and> localProps (foldl roleRow r rows) = localProps r
      \<and> role.parentRoles (foldl roleRow r rows) = role.parentRoles r
      \<and> category (foldl roleRow r rows) = category r" for r rows
    by (induction rows rule: rev_induct) (simp_all add: roleRow_resolver_fields)
  then show "allProps (roleOfBlock n d) = None"
    "localProps (roleOfBlock n d) = None"
    "role.parentRoles (roleOfBlock n d) = None"
    "category (roleOfBlock n d) = None"
    by (simp_all add: roleOfBlock_def newRole_def)
qed

lemma merge_entries_untouched:
  "n \<notin> fst ` set entries \<Longrightarrow>
   map_of (foldl (mergeRoleInfoEntry ri) rs entries) n = map_of rs n"
proof (induction entries arbitrary: rs)
  case Nil
  show ?case by simp
next
  case (Cons e entries)
  obtain k info where e: "e = (k, info)" by (cases e)
  from Cons.prems have kn: "k \<noteq> n" and rest: "n \<notin> fst ` set entries" by (auto simp: e)
  have "map_of (mergeRoleInfoEntry ri rs e) n = map_of rs n"
    using kn by (simp add: mergeRoleInfoEntry_def e map_of_update split: option.splits)
  with Cons.IH[OF rest, of "mergeRoleInfoEntry ri rs e"] show ?case by simp
qed

lemma mergeRoleInfo_untouched:
  "map_of ri n = None \<Longrightarrow> map_of (mergeRoleInfo ri rs) n = map_of rs n"
  unfolding mergeRoleInfo_def by (rule merge_entries_untouched) (simp add: map_of_eq_None_iff)

lemma update_existing_keys:
  "map_of al k = Some v0 \<Longrightarrow> map fst (AList.update k v al) = map fst al"
  by (induction al) (auto split: if_splits)

lemma mergeRoleInfo_keys: "map fst (mergeRoleInfo ri rs) = map fst rs"
proof -
  have "map fst (foldl (mergeRoleInfoEntry ri) rs entries) = map fst rs" for entries
  proof (induction entries arbitrary: rs)
    case Nil
    show ?case by simp
  next
    case (Cons e entries)
    have "map fst (mergeRoleInfoEntry ri rs e) = map fst rs"
      by (cases e) (simp add: mergeRoleInfoEntry_def update_existing_keys split: option.splits)
    with Cons.IH[of "mergeRoleInfoEntry ri rs e"] show ?case by simp
  qed
  then show ?thesis by (simp add: mergeRoleInfo_def)
qed


lemma categorized_lookup:
  "distinct (map fst rs) \<Longrightarrow>
   map_of (snd (categorizeRoles rs)) n =
     map_option (\<lambda>r. r\<lparr>category := Some (ruleCategory r n)\<rparr>) (map_of rs n)"
  by (simp add: categorizeRoles_char map_of_withCategory)

lemma buildAllProps_absent: "map_of ri n = None \<Longrightarrow> buildAllPropsFresh n ri = []"
  by (simp add: buildAllPropsFresh_def buildAllProps.simps)

lemma absent_role_untouched:
  assumes "ariaHtml src = Some doc"
    and "map_of (parseRoles doc) n = Some r0"
    and "map_of (fst (parseRoleInfoJS (roleInfoJs src))) n = None"
  shows "\<exists>d. written (main src) = Some d
    \<and> map_of (roles d) n = Some (r0\<lparr>category := Some (ruleCategory r0 n)\<rparr>)
    \<and> allProps r0 = None \<and> localProps r0 = None \<and> role.parentRoles r0 = None"
proof -
  let ?ri = "fst (parseRoleInfoJS (roleInfoJs src))"
  from main_written[OF assms(1)] obtain d where d: "written (main src) = Some d"
    "roles d = snd (categorizeRoles (mergeRoleInfo ?ri (parseRoles doc)))" by blast
  have dist: "distinct (map fst (mergeRoleInfo ?ri (parseRoles doc)))"
    by (simp add: mergeRoleInfo_keys parseRoles_distinct)
  have "map_of (mergeRoleInfo ?ri (parseRoles doc)) n = Some r0"
    using assms(2,3) by (simp add: mergeRoleInfo_untouched)
  with dist have "map_of (roles d) n = Some (r0\<lparr>category := Some (ruleCategory r0 n)\<rparr>)"
    by (simp add: d(2) categorized_lookup)
  moreover from assms(2) obtain b where "r0 = roleOfBlock n b"
    by (auto simp: parseRoles_lookup)
  ultimately show ?thesis using d(1) by (simp add: roleOfBlock_resolver_fields)
qed

text \<open>
  Claim C5, amended. A role extracted from the primary document whose name is not a
  key of the structured inheritance table is left as extracted: in the assembled data
  its \<^verbatim>\<open>allProps\<close>, \<^verbatim>\<open>localProps\<close> and \<^verbatim>\<open>parentRoles\<close> fields are absent (not the
  empty list), whatever its \<^verbatim>\<open>superclassRoles\<close>, which are kept; the resolver is not
  called for it, and would return the empty list if it were.
\<close>

theorem absent_role_fields_absent:
  assumes "ariaHtml src = Some doc"
    and "map_of (parseRoles doc) n = Some r0"
    and "map_of (fst (parseRoleInfoJS (roleInfoJs src))) n = None"
  shows "\<exists>d r. written (main src) = Some d
    \<and> map_of (roles d) n = Some r
    \<and> allProps r = None \<and> localProps r = None \<and> role.parentRoles r = None
    \<and> superclassRoles r = superclassRoles r0
    \<and> buildAllPropsFresh n (fst (parseRoleInfoJS (roleInfoJs src))) = []"
proof -
  from absent_role_untouched[OF assms] obtain d where
    "written (main src) = Some d"
    "map_of (roles d) n = Some (r0\<lparr>category := Some (ruleCategory r0 n)\<rparr>)"
    "allProps r0 = None" "localProps r0 = None" "role.parentRoles r0 = None" by blast
  then show ?thesis using buildAllProps_absent[OF assms(3)] by simp
qed

lemma absentSources_widget:
  "ariaHtml absentSources = Some booleanDoc"
  "map_of (parseRoles booleanDoc) ''widget'' = Some (roleOfBlock ''widget'' (role_divs booleanDoc ! 0))"
  "map_of (fst (parseRoleInfoJS (roleInfoJs absentSources))) ''widget'' = None"
  "superclassRoles (roleOfBlock ''widget'' (role_divs booleanDoc ! 0)) = [''roletype'']"
     apply (simp add: absentSources_def onlyPrimary_def)
    apply (simp add: parseRoles_lookup lastBlock_def booleanDoc_def)
   apply (simp add: absentSources_def onlyPrimary_def parseRoleInfoJS_def switchTable_def)
  apply (simp add: roleOfBlock_def booleanDoc_def roleRow_def newRole_def plainRow_def Let_def sample_texts)
  done

theorem absent_role_fields_absent_witness:
  "ariaHtml absentSources = Some booleanDoc
   \<and> map_of (fst (parseRoleInfoJS (roleInfoJs absentSources))) ''widget'' = None
   \<and> (\<exists>d r. written (main absentSources) = Some d
         \<and> map_of (roles d) ''widget'' = Some r
         \<and> allProps r = None \<and> localProps r = None \<and> role.parentRoles r = None
         \<and> superclassRoles r = [''roletype''])"
proof -
  from absent_role_fields_absent[OF absentSources_widget(1,2,3)] obtain d r where
    "written (main absentSources) = Some d" "map_of (roles d) ''widget'' = Some r"
    "allProps r = None" "localProps r = None" "role.parentRoles r = None"
    "superclassRoles r = superclassRoles (roleOfBlock ''widget'' (role_divs booleanDoc ! 0))"
    by blast
  then have "\<exists>d r. written (main absentSources) = Some d
         \<and> map_of (roles d) ''widget'' = Some r
         \<and> allProps r = None \<and> localProps r = None \<and> role.parentRoles r = None
         \<and> superclassRoles r = [''roletype'']"
    using absentSources_widget(4) by auto
  then show ?thesis using absentSources_widget(1,3) by simp
qed

text \<open>
  Claim C5 as stated fails: \<^verbatim>\<open>widget\<close> is extracted with a prose superclass, is not in
  the table, and its \<^verbatim>\<open>allProps\<close> field is not the empty list: it does not exist.
\<close>

theorem absent_role_allProps_counterexample:
  "map_of (parseRoles booleanDoc) ''widget'' \<noteq> None
   \<and> map_of (fst (parseRoleInfoJS (roleInfoJs absentSources))) ''widget'' = None
   \<and> (\<exists>d r. written (main absentSources) = Some d
         \<and> map_of (roles d) ''widget'' = Some r
         \<and> superclassRoles r = [''roletype'']
         \<and> allProps r \<noteq> Some [])"
proof -
  from absent_role_untouched[OF absentSources_widget(1,2,3)] obtain d where
    "written (main absentSources) = Some d"
    "map_of (roles d) ''widget'' = Some ((roleOfBlock ''widget'' (role_divs booleanDoc ! 0))
        \<lparr>category := Some (ruleCategory (roleOfBlock ''widget'' (role_divs booleanDoc ! 0)) ''widget'')\<rparr>)"
    "allProps (roleOfBlock ''widget'' (role_divs booleanDoc ! 0)) = None" by blast
  then show ?thesis using absentSources_widget by simp
qed




lemma roles_keys:
  "map fst (snd (categorizeRoles (mergeRoleInfo ri (parseRoles doc)))) = map fst (parseRoles doc)"
proof -
  have "distinct (map fst (mergeRoleInfo ri (parseRoles doc)))"
    by (simp add: mergeRoleInfo_keys parseRoles_distinct)
  then show ?thesis
    by (simp add: categorizeRoles_char withCategory_def comp_def mergeRoleInfo_keys)
qed

lemma module_lookup:
  "map_of (foldl (addModuleRole m) [] divs) n = map_option (moduleRoleOf m n) (lastBlock n divs)"
  by (subst blocks_lookup[where build = "moduleRoleOf m"])
     (auto simp: addModuleRole_def moduleRoleOf_def split: option.splits)









text \<open>
  Claim C8. The roles of the assembled data are determined by the primary document and
  the inheritance table alone: replacing the extension modules by anything leaves them
  as they are. A module's roles are stored under that module only, each with the
  module's tag, so a name defined by both modules has one entry in each collection.
\<close>

theorem module_roles_isolated:
  assumes "ariaHtml src = Some doc"
  shows "\<exists>d. written (main src) = Some d
    \<and> roles d = snd (categorizeRoles (mergeRoleInfo (fst (parseRoleInfoJS (roleInfoJs src))) (parseRoles doc)))
    \<and> (\<forall>dp gr. map_option roles (written (main (src\<lparr>dpubHtml := dp, graphicsHtml := gr\<rparr>)))
                  = Some (roles d))
    \<and> (\<forall>n. map_of (dpub (extensions d)) n =
          (case dpubHtml src of
             None \<Rightarrow> None
           | Some divs \<Rightarrow> map_option (moduleRoleOf ''dpub-aria'' n) (lastBlock n divs)))
    \<and> (\<forall>n. map_of (graphics (extensions d)) n =
          (case graphicsHtml src of
             None \<Rightarrow> None
           | Some divs \<Rightarrow> map_option (moduleRoleOf ''graphics-aria'' n) (lastBlock n divs)))"
proof -
  from main_written[OF assms] obtain d where d: "written (main src) = Some d"
    "roles d = snd (categorizeRoles (mergeRoleInfo (fst (parseRoleInfoJS (roleInfoJs src))) (parseRoles doc)))"
    "dpub (extensions d) = fst (parseDpubAria (dpubHtml src))"
    "graphics (extensions d) = fst (parseGraphicsAria (graphicsHtml src))"
    by blast
  have frame: "map_option roles (written (main (src\<lparr>dpubHtml := dp, graphicsHtml := gr\<rparr>)))
                  = Some (roles d)" for dp gr
  proof -
    have "ariaHtml (src\<lparr>dpubHtml := dp, graphicsHtml := gr\<rparr>) = Some doc" using assms by simp
    from main_written[OF this] show ?thesis by (auto simp: d(2))
  qed
  have dp: "map_of (dpub (extensions d)) n =
          (case dpubHtml src of
             None \<Rightarrow> None
           | Some divs \<Rightarrow> map_option (moduleRoleOf ''dpub-aria'' n) (lastBlock n divs))" for n
    by (simp add: d(3) parseDpubAria_def module_lookup split: option.splits)
  have gr: "map_of (graphics (extensions d)) n =
          (case graphicsHtml src of
             None \<Rightarrow> None
           | Some divs \<Rightarrow> map_option (moduleRoleOf ''graphics-aria'' n) (lastBlock n divs))" for n
    by (simp add: d(4) parseGraphicsAria_def module_lookup split: option.splits)
  from d(1,2) frame dp gr show ?thesis by blast
qed

theorem module_roles_isolated_witness:
  "ariaHtml moduleSources = Some moduleExampleDoc
   \<and> (\<exists>d. written (main moduleSources) = Some d
        \<and> map_option roles (written (main (moduleSources\<lparr>dpubHtml := None, graphicsHtml := None\<rparr>)))
             = Some (roles d)
        \<and> map_of (dpub (extensions d)) ''doc-example'' =
             Some \<lparr>moduleRole.name = ''doc-example'', module = ''dpub-aria'',
                   moduleRole.description = ''An illustrative example.''\<rparr>
        \<and> map_of (graphics (extensions d)) ''doc-example'' =
             Some \<lparr>moduleRole.name = ''doc-example'', module = ''graphics-aria'',
                   moduleRole.description = ''A graphics example.''\<rparr>
        \<and> map fst (roles d) = [''doc-example''])"
proof -
  have p: "ariaHtml moduleSources = Some moduleExampleDoc"
    by (simp add: moduleSources_def onlyPrimary_def)
  from module_roles_isolated[OF p] obtain d where d: "written (main moduleSources) = Some d"
    "roles d = snd (categorizeRoles (mergeRoleInfo (fst (parseRoleInfoJS (roleInfoJs moduleSources))) (parseRoles moduleExampleDoc)))"
    "\<And>dp gr. map_option roles (written (main (moduleSources\<lparr>dpubHtml := dp, graphicsHtml := gr\<rparr>)))
                  = Some (roles d)"
    "\<And>n. map_of (dpub (extensions d)) n =
          (case dpubHtml moduleSources of
             None \<Rightarrow> None
           | Some divs \<Rightarrow> map_option (moduleRoleOf ''dpub-aria'' n) (lastBlock n divs))"
    "\<And>n. map_of (graphics (extensions d)) n =
          (case graphicsHtml moduleSources of
             None \<Rightarrow> None
           | Some divs \<Rightarrow> map_option (moduleRoleOf ''graphics-aria'' n) (lastBlock n divs))"
    by blast
  have k: "map fst (roles d) = [''doc-example'']"
    by (simp add: d(2) roles_keys)
       (simp add: parseRoles_def parseRoleDiv_def moduleExampleDoc_def)
  have e1: "map_of (dpub (extensions d)) ''doc-example'' =
             Some \<lparr>moduleRole.name = ''doc-example'', module = ''dpub-aria'',
                   moduleRole.description = ''An illustrative example.''\<rparr>"
    by (simp add: d(4) moduleSources_def onlyPrimary_def lastBlock_def moduleRoleOf_def sample_texts)
  have e2: "map_of (graphics (extensions d)) ''doc-example'' =
             Some \<lparr>moduleRole.name = ''doc-example'', module = ''graphics-aria'',
                   moduleRole.description = ''A graphics example.''\<rparr>"
    by (simp add: d(5) moduleSources_def onlyPrimary_def lastBlock_def moduleRoleOf_def sample_texts)
  from p d(1) d(3)[of None None] k e1 e2 show ?thesis by simp
qed


end
